theory Spec2Isabelle
  imports Main "HOL-Library.Sublist"
begin

section \<open>Strings\<close>

text \<open>
  The extension manipulates JavaScript strings. They are modelled as \<open>string\<close>, one
  \<open>char\<close> per UTF-16 code unit; the model covers the code units below 256, which is where
  every character class used by the source (\<open>\<bsol>d\<close>, \<open>\<bsol>w\<close>, \<open>[a-z]\<close>, the line terminators
  \<open>\<bsol>n\<close> and \<open>\<bsol>r\<close>) lives. Of the white space of \<open>\<bsol>s\<close> and \<open>trim()\<close> the model has the seven
  code units below 256.
\<close>

definition isDigit :: "char \<Rightarrow> bool" where
  "isDigit c = (c \<in> set ''0123456789'')"

definition isLowerAZ :: "char \<Rightarrow> bool" where
  "isLowerAZ c = (c \<in> set ''abcdefghijklmnopqrstuvwxyz'')"

definition isUpperAZ :: "char \<Rightarrow> bool" where
  "isUpperAZ c = (c \<in> set ''ABCDEFGHIJKLMNOPQRSTUVWXYZ'')"

definition isWordChar :: "char \<Rightarrow> bool" where
  "isWordChar c = (isLowerAZ c \<or> isUpperAZ c \<or> isDigit c \<or> c = CHR ''_'')"

definition isSpace :: "char \<Rightarrow> bool" where
  "isSpace c = (c \<in> {CHR 0x09, CHR 0x0A, CHR 0x0B, CHR 0x0C, CHR 0x0D, CHR 0x20, CHR 0xA0})"

definition isLineTerminator :: "char \<Rightarrow> bool" where
  "isLineTerminator c = (c = CHR 0x0A \<or> c = CHR 0x0D)"

text \<open>\<open>String.prototype.toLowerCase\<close> on code units below 256: A-Z, and the Latin-1
  capitals 0xC0-0xDE except the multiplication sign 0xD7, move up by 32.\<close>

definition lowerChar :: "char \<Rightarrow> char" where
  "lowerChar c =
     (let n = of_char c :: nat in
      if (65 \<le> n \<and> n \<le> 90) \<or> (192 \<le> n \<and> n \<le> 222 \<and> n \<noteq> 215)
      then char_of (n + 32) else c)"

definition toLowerCase :: "string \<Rightarrow> string" where
  "toLowerCase s = map lowerChar s"

text \<open>\<open>s.includes(pat)\<close>.\<close>

fun includesStr :: "string \<Rightarrow> string \<Rightarrow> bool" where
  "includesStr [] pat = (pat = [])"
| "includesStr (c # cs) pat = (prefix pat (c # cs) \<or> includesStr cs pat)"

text \<open>\<open>s.trim()\<close>.\<close>

definition trim :: "string \<Rightarrow> string" where
  "trim s = rev (dropWhile isSpace (rev (dropWhile isSpace s)))"

text \<open>The maximal runs of characters that are not separators: what
  \<open>s.split(/sep+/).filter(Boolean)\<close> returns.\<close>

fun tokensAcc :: "(char \<Rightarrow> bool) \<Rightarrow> string \<Rightarrow> string \<Rightarrow> string list" where
  "tokensAcc sep cur [] = (if cur = [] then [] else [rev cur])"
| "tokensAcc sep cur (c # cs) =
     (if sep c then (if cur = [] then tokensAcc sep [] cs else rev cur # tokensAcc sep [] cs)
      else tokensAcc sep (c # cur) cs)"

definition tokens :: "(char \<Rightarrow> bool) \<Rightarrow> string \<Rightarrow> string list" where
  "tokens sep s = tokensAcc sep [] s"

text \<open>\<open>s.split(c)\<close> for a one-character separator: empty pieces are kept.\<close>

fun splitOn :: "char \<Rightarrow> string \<Rightarrow> string list" where
  "splitOn d [] = [[]]"
| "splitOn d (c # cs) =
     (if c = d then [] # splitOn d cs
      else (case splitOn d cs of [] \<Rightarrow> [[c]] | p # ps \<Rightarrow> (c # p) # ps))"

section \<open>Count extractor\<close>

text \<open>A JavaScript number as the extractor can produce it: a natural number, or \<open>NaN\<close>.\<close>

datatype jsnumber = Num nat | NaN

text \<open>\<open>Math.max(a, b)\<close>: \<open>NaN\<close> if either argument is.\<close>

fun mathMax :: "jsnumber \<Rightarrow> jsnumber \<Rightarrow> jsnumber" where
  "mathMax (Num a) (Num b) = Num (max a b)"
| "mathMax _ _ = NaN"

text \<open>What \<open>map[key]\<close> evaluates to. \<open>map\<close> is an object literal, so besides its own
  keys the lookup sees the properties of \<open>Object.prototype\<close>; among keys made of the
  letters a-z and the hyphen only \<open>constructor\<close> is one (a function: truthy, not a
  number).\<close>

datatype jsval = Undefined | Number nat | Inherited

definition numberWords :: "(string \<times> nat) list" where
  "numberWords =
     [(''one'', 1), (''two'', 2), (''three'', 3), (''four'', 4), (''five'', 5), (''six'', 6),
      (''seven'', 7), (''eight'', 8), (''nine'', 9), (''ten'', 10), (''eleven'', 11),
      (''twelve'', 12), (''thirteen'', 13), (''fourteen'', 14), (''fifteen'', 15),
      (''sixteen'', 16), (''seventeen'', 17), (''eighteen'', 18), (''nineteen'', 19),
      (''twenty'', 20), (''thirty'', 30), (''forty'', 40), (''fifty'', 50)]"

definition lookupWord :: "string \<Rightarrow> jsval" where
  "lookupWord k =
     (case map_of numberWords k of
        Some n \<Rightarrow> Number n
      | None \<Rightarrow> if k = ''constructor'' then Inherited else Undefined)"

text \<open>\<open>levenshteinDistance\<close>: the two-row dynamic programme. \<open>fillRow\<close> is the inner
  loop over \<open>j\<close> (it produces \<open>next[1..]\<close> from \<open>prev\<close> and the entry to the left),
  \<open>levRows\<close> the outer loop over \<open>i\<close>.\<close>

fun fillRow :: "char \<Rightarrow> string \<Rightarrow> nat list \<Rightarrow> nat \<Rightarrow> nat list" where
  "fillRow ai (bj # bs) (pj # pj1 # ps) left =
     (let cost = (if ai = bj then 0 else 1);
          v = min (min (pj1 + 1) (left + 1)) (pj + cost)
      in v # fillRow ai bs (pj1 # ps) v)"
| "fillRow ai _ _ left = []"

fun levRows :: "string \<Rightarrow> string \<Rightarrow> nat list \<Rightarrow> nat \<Rightarrow> nat list" where
  "levRows [] b prev i = prev"
| "levRows (ai # as) b prev i = levRows as b ((i + 1) # fillRow ai b prev (i + 1)) (i + 1)"

definition levenshteinDistance :: "string \<Rightarrow> string \<Rightarrow> nat" where
  "levenshteinDistance a b =
     (if a = b then 0
      else if a = [] then length b
      else if b = [] then length a
      else last (levRows a b [0 ..< length b + 1] 0))"

text \<open>\<open>findClosestNumberWord\<close>: the loop over \<open>Object.keys(map)\<close>, which lists the
  keys in the order the literal gives them; a later word replaces the best one only when
  strictly closer.\<close>

fun closestLoop :: "string \<Rightarrow> string list \<Rightarrow> string \<Rightarrow> nat \<Rightarrow> string \<times> nat" where
  "closestLoop token [] best bestDistance = (best, bestDistance)"
| "closestLoop token (w # ws) best bestDistance =
     (let distance = levenshteinDistance token w in
      if distance < bestDistance then closestLoop token ws w distance
      else closestLoop token ws best bestDistance)"

definition findClosestNumberWord :: "string \<Rightarrow> nat \<Rightarrow> string" where
  "findClosestNumberWord token maxDistance =
     (case closestLoop token (map fst numberWords) [] (maxDistance + 1) of
        (best, bestDistance) \<Rightarrow> if bestDistance \<le> maxDistance then best else [])"

text \<open>\<open>text.match(/\<bsol>b\<bsol>d{1,3}\<bsol>b/g)\<close>: a match starts and ends at a word boundary, so
  it is a whole maximal run of word characters, made of one to three digits.\<close>

definition digitMatches :: "string \<Rightarrow> string list" where
  "digitMatches s =
     filter (\<lambda>r. list_all isDigit r \<and> length r \<le> 3) (tokens (\<lambda>c. \<not> isWordChar c) s)"

definition digitValue :: "char \<Rightarrow> nat" where
  "digitValue c = of_char c - 48"

definition numberOf :: "string \<Rightarrow> nat" where
  "numberOf ds = foldl (\<lambda>acc c. 10 * acc + digitValue c) 0 ds"

text \<open>\<open>text.replace(/[^a-z\<bsol>s-]/g, " ").split(/\<bsol>s+/).filter(Boolean)\<close>.\<close>

definition wordsOf :: "string \<Rightarrow> string list" where
  "wordsOf s =
     tokens isSpace
       (map (\<lambda>c. if isLowerAZ c \<or> isSpace c \<or> c = CHR ''-'' then c else CHR '' '') s)"

text \<open>The hyphenated branch of the loop body: \<open>Some\<close> the new maximum when the branch
  reaches \<open>continue\<close>. \<open>base + next\<close> with a function for \<open>base\<close> is a string, which
  \<open>Math.max\<close> turns into \<open>NaN\<close>.\<close>

definition hyphenated :: "jsnumber \<Rightarrow> string \<Rightarrow> jsnumber option" where
  "hyphenated maxValue token =
     (if CHR ''-'' \<in> set token then
        (let parts = splitOn CHR ''-'' token;
             base = lookupWord (parts ! 0);
             nxt = lookupWord (parts ! 1)
         in case nxt of
              Number n \<Rightarrow>
                (if 0 < n \<and> n < 10 then
                   (case base of
                      Number b \<Rightarrow> if 0 < b then Some (mathMax maxValue (Num (b + n))) else None
                    | Inherited \<Rightarrow> Some NaN
                    | Undefined \<Rightarrow> None)
                 else None)
            | _ \<Rightarrow> None)
      else None)"

text \<open>The rest of the loop body, for the token and the tokens after it.\<close>

definition plainToken :: "jsnumber \<Rightarrow> string \<Rightarrow> string list \<Rightarrow> jsnumber" where
  "plainToken maxValue token rest =
     (let v = (case lookupWord token of
                 Undefined \<Rightarrow> lookupWord (findClosestNumberWord token 2)
               | found \<Rightarrow> found)
      in case v of
           Undefined \<Rightarrow> maxValue
         | Inherited \<Rightarrow> NaN
         | Number n \<Rightarrow>
             (if n = 0 then maxValue
              else
                (let total =
                   (if n \<ge> 20 \<and> n mod 10 = 0 \<and> rest \<noteq> [] then
                      (case lookupWord (hd rest) of
                         Number m \<Rightarrow> if 0 < m \<and> m < 10 then n + m else n
                       | _ \<Rightarrow> n)
                    else n)
                 in mathMax maxValue (Num total))))"

fun wordLoop :: "jsnumber \<Rightarrow> string list \<Rightarrow> jsnumber" where
  "wordLoop maxValue [] = maxValue"
| "wordLoop maxValue (token # rest) =
     (case hyphenated maxValue token of
        Some m \<Rightarrow> wordLoop m rest
      | None \<Rightarrow> wordLoop (plainToken maxValue token rest) rest)"

definition extractRequestedCount :: "string \<Rightarrow> jsnumber" where
  "extractRequestedCount s =
     (let matches = digitMatches s;
          maxValue = (if matches = [] then 0 else Max (set (map numberOf matches)))
      in wordLoop (Num maxValue) (wordsOf s))"

section \<open>Count extractor: the strategies as the specification words them\<close>

text \<open>
  The specification lists five strategies and takes the maximum of what they find. They
  are written here from its words, without the source's loop.

  Strategy 1, literal integers of up to three digits: a run of one to three digits with
  no word character directly before or after it. \<open>literalFrom\<close> walks the text; its flag
  says whether a word character stands directly before the position.
\<close>

definition digitRunHere :: "string \<Rightarrow> string option" where
  "digitRunHere s =
     (let run = takeWhile isDigit s; after = drop (length run) s in
      if run \<noteq> [] \<and> length run \<le> 3 \<and> (after = [] \<or> \<not> isWordChar (hd after))
      then Some run else None)"

fun literalFrom :: "bool \<Rightarrow> string \<Rightarrow> nat list" where
  "literalFrom inWord [] = []"
| "literalFrom inWord (c # cs) =
     (case (if inWord then None else digitRunHere (c # cs)) of
        Some run \<Rightarrow> numberOf run # literalFrom (isWordChar c) cs
      | None \<Rightarrow> literalFrom (isWordChar c) cs)"

definition literalIntegers :: "string \<Rightarrow> nat list" where
  "literalIntegers s = literalFrom False s"

text \<open>Strategy 2, the closed set of number words: \<open>one\<close> to \<open>twenty\<close> for 1 to 20, and
  \<open>thirty\<close>, \<open>forty\<close>, \<open>fifty\<close>. The words of a text are its maximal runs of the
  letters a-z and the hyphen.\<close>

definition cardinalWords :: "(string \<times> nat) list" where
  "cardinalWords =
     zip [''one'', ''two'', ''three'', ''four'', ''five'', ''six'', ''seven'', ''eight'', ''nine'',
          ''ten'', ''eleven'', ''twelve'', ''thirteen'', ''fourteen'', ''fifteen'', ''sixteen'',
          ''seventeen'', ''eighteen'', ''nineteen'', ''twenty''] [1 ..< 21]
     @ [(''thirty'', 30), (''forty'', 40), (''fifty'', 50)]"

definition cardinal :: "string \<Rightarrow> nat option" where
  "cardinal w = map_of cardinalWords w"

definition wordRuns :: "string \<Rightarrow> string list" where
  "wordRuns s = tokens (\<lambda>c. \<not> (isLowerAZ c \<or> c = CHR ''-'')) s"

text \<open>Strategy 5, the closest number word within edit distance 2. The edit distance is
  the Levenshtein distance, given by its recurrence on the first \<open>i\<close> characters of one
  string and the first \<open>j\<close> of the other. Of several number words at the smallest
  distance the one listed first is taken.\<close>

fun prefixDistance :: "string \<Rightarrow> string \<Rightarrow> nat \<Rightarrow> nat \<Rightarrow> nat" where
  "prefixDistance a b 0 j = j"
| "prefixDistance a b (Suc i) 0 = Suc i"
| "prefixDistance a b (Suc i) (Suc j) =
     min (min (prefixDistance a b i (Suc j) + 1) (prefixDistance a b (Suc i) j + 1))
         (prefixDistance a b i j + (if a ! i = b ! j then 0 else 1))"

definition editDistance :: "string \<Rightarrow> string \<Rightarrow> nat" where
  "editDistance a b = prefixDistance a b (length a) (length b)"

text \<open>Row \<open>i\<close> of the table of the recurrence: the distances from the first \<open>i\<close>
  characters of \<open>a\<close> to every prefix of \<open>b\<close>.\<close>

definition distanceRow :: "string \<Rightarrow> string \<Rightarrow> nat \<Rightarrow> nat list" where
  "distanceRow a b i = map (prefixDistance a b i) [0 ..< Suc (length b)]"

definition closestCardinal :: "string \<Rightarrow> nat option" where
  "closestCardinal t =
     (let best = Min (set (map (\<lambda>(w, v). editDistance t w) cardinalWords)) in
      if best \<le> 2
      then map_option snd (find (\<lambda>(w, v). editDistance t w = best) cardinalWords)
      else None)"

text \<open>Strategy 3, hyphenated compounds: a number word joined by a hyphen to a number
  word below 10 counts as their sum. Strategy 4: a tens word (20, 30, 40 or 50, matched
  exactly or by strategy 5) directly followed by a word that is a number word below 10
  counts as their sum. \<open>wordValue\<close> is what the strategies 2 to 5 find at one word, given
  the words after it; 0 stands for nothing found.\<close>

definition unitsValue :: "string \<Rightarrow> nat option" where
  "unitsValue w = (case cardinal w of Some u \<Rightarrow> if u < 10 then Some u else None | None \<Rightarrow> None)"

definition compoundValue :: "string \<Rightarrow> nat option" where
  "compoundValue t =
     (if CHR ''-'' \<in> set t then
        (case splitOn CHR ''-'' t of
           a # b # _ \<Rightarrow>
             (case (cardinal a, unitsValue b) of
                (Some x, Some u) \<Rightarrow> Some (x + u)
              | _ \<Rightarrow> None)
         | _ \<Rightarrow> None)
      else None)"

definition wordValue :: "string \<Rightarrow> string list \<Rightarrow> nat" where
  "wordValue t following =
     (case compoundValue t of
        Some v \<Rightarrow> v
      | None \<Rightarrow>
          (case (case cardinal t of Some v \<Rightarrow> Some v | None \<Rightarrow> closestCardinal t) of
             None \<Rightarrow> 0
           | Some v \<Rightarrow>
               (case (if v \<in> {20, 30, 40, 50}
                      then (case following of [] \<Rightarrow> None | w # _ \<Rightarrow> unitsValue w)
                      else None) of
                  Some u \<Rightarrow> v + u
                | None \<Rightarrow> v)))"

fun wordValues :: "string list \<Rightarrow> nat list" where
  "wordValues [] = []"
| "wordValues (t # following) = wordValue t following # wordValues following"

definition countedValues :: "string \<Rightarrow> nat list" where
  "countedValues s = literalIntegers s @ wordValues (wordRuns s)"

section \<open>Task sizing classifier\<close>

datatype TaskExecutionTier = TIER_1 | TIER_2 | TIER_3

definition scopeWords :: "string list" where
  "scopeWords =
     [''all'', ''every'', ''each'', ''across'', ''compare'', ''generate'', ''create'', ''add'',
      ''migrate'', ''refactor'', ''update'', ''implement'', ''replace'']"

text \<open>The regular expression is an alternation of literal words, tested anywhere in the
  lower-cased prompt.\<close>

definition hasScopeSignals :: "string \<Rightarrow> bool" where
  "hasScopeSignals lower = list_ex (\<lambda>w. includesStr lower w) scopeWords"

text \<open>\<open>count >= k\<close>: false when \<open>count\<close> is \<open>NaN\<close>.\<close>

fun atLeast :: "jsnumber \<Rightarrow> nat \<Rightarrow> bool" where
  "atLeast (Num n) k = (k \<le> n)"
| "atLeast NaN k = False"

definition classifyTaskSizing :: "string \<Rightarrow> string \<Rightarrow> TaskExecutionTier" where
  "classifyTaskSizing prompt contextText =
     (let lower = toLowerCase prompt;
          count = extractRequestedCount lower;
          promptLength = length prompt;
          contextSize = length contextText;
          score0 = (0 :: nat);
          score1 = (if promptLength > 600 then score0 + 2
                    else if promptLength > 300 then score0 + 1 else score0);
          score2 = (if contextSize > 200000 then score1 + 2
                    else if contextSize > 100000 then score1 + 1 else score1);
          score3 = (if atLeast count 20 then score2 + 3
                    else if atLeast count 8 then score2 + 2
                    else if atLeast count 4 then score2 + 2 else score2);
          score = (if hasScopeSignals lower then score3 + 1 else score3)
      in if score \<ge> 5 then TIER_3 else if score \<ge> 3 then TIER_2 else TIER_1)"

text \<open>The scoring table as the specification words it: four independent awards, summed.\<close>

definition promptAward :: "nat \<Rightarrow> nat" where
  "promptAward len = (if len > 600 then 2 else if len > 300 then 1 else 0)"

definition contextAward :: "nat \<Rightarrow> nat" where
  "contextAward len = (if len > 200000 then 2 else if len > 100000 then 1 else 0)"

definition countAward :: "jsnumber \<Rightarrow> nat" where
  "countAward count =
     (case count of
        NaN \<Rightarrow> 0
      | Num n \<Rightarrow> if n \<ge> 20 then 3 else if n \<ge> 8 then 2 else if n \<ge> 4 then 2 else 0)"

definition scopeAward :: "string \<Rightarrow> nat" where
  "scopeAward lower = (if list_ex (\<lambda>w. includesStr lower w) scopeWords then 1 else 0)"

definition specScore :: "string \<Rightarrow> string \<Rightarrow> nat" where
  "specScore prompt contextText =
     promptAward (length prompt) + contextAward (length contextText)
       + countAward (extractRequestedCount (toLowerCase prompt))
       + scopeAward (toLowerCase prompt)"

definition tierOfScore :: "nat \<Rightarrow> TaskExecutionTier" where
  "tierOfScore score = (if score \<ge> 5 then TIER_3 else if score \<ge> 3 then TIER_2 else TIER_1)"

section \<open>Patch text\<close>

definition newline :: string where
  "newline = [CHR 0x0A]"

text \<open>\<open>s.indexOf(pat)\<close>, \<open>None\<close> for -1.\<close>

fun indexOf :: "string \<Rightarrow> string \<Rightarrow> nat option" where
  "indexOf [] pat = (if pat = [] then Some 0 else None)"
| "indexOf (c # cs) pat =
     (if prefix pat (c # cs) then Some 0 else map_option Suc (indexOf cs pat))"

text \<open>\<open>s.split(/\<bsol>r?\<bsol>n/)\<close>.\<close>

definition consLine :: "char \<Rightarrow> string list \<Rightarrow> string list" where
  "consLine c ls = (case ls of [] \<Rightarrow> [[c]] | l # rest \<Rightarrow> (c # l) # rest)"

fun splitLines :: "string \<Rightarrow> string list" where
  "splitLines [] = [[]]"
| "splitLines (c # cs) =
     (if c = CHR 0x0A then [] # splitLines cs
      else if c = CHR 0x0D then
        (case cs of
           [] \<Rightarrow> [[c]]
         | d # ds \<Rightarrow> if d = CHR 0x0A then [] # splitLines ds else consLine c (splitLines cs))
      else consLine c (splitLines cs))"

declare splitLines.simps(2) [simp del]

text \<open>\<open>parts.join(sep)\<close>.\<close>

fun joinWith :: "string \<Rightarrow> string list \<Rightarrow> string" where
  "joinWith sep [] = []"
| "joinWith sep [x] = x"
| "joinWith sep (x # y # ys) = x @ sep @ joinWith sep (y # ys)"

text \<open>\<open>xs.findIndex(p)\<close>, \<open>None\<close> for -1.\<close>

fun findIndex :: "('a \<Rightarrow> bool) \<Rightarrow> 'a list \<Rightarrow> nat option" where
  "findIndex p [] = None"
| "findIndex p (x # xs) = (if p x then Some 0 else map_option Suc (findIndex p xs))"

text \<open>\<open>s.replace(/^p/, "")\<close> for a literal \<open>p\<close>.\<close>

definition stripPrefix :: "string \<Rightarrow> string \<Rightarrow> string" where
  "stripPrefix p s = (if prefix p s then drop (length p) s else s)"

definition ensureDiffGitHeader :: "string \<Rightarrow> string" where
  "ensureDiffGitHeader patch =
     (if includesStr patch ''diff --git '' then patch
      else
        (let lines = splitLines patch in
         case (findIndex (prefix ''--- '') lines, findIndex (prefix ''+++ '') lines) of
           (Some oldIndex, Some newIndex) \<Rightarrow>
             (let oldPath = trim (drop 4 (lines ! oldIndex));
                  newPath = trim (drop 4 (lines ! newIndex));
                  cleanOld = stripPrefix ''a/'' oldPath;
                  cleanNew = stripPrefix ''b/'' newPath;
                  aPath = (if oldPath = ''/dev/null'' then cleanNew else cleanOld);
                  bPath = (if newPath = ''/dev/null'' then cleanOld else cleanNew);
                  header =
                    [''diff --git a/'' @ aPath @ '' b/'' @ bPath] @
                    (if oldPath = ''/dev/null'' then [''new file mode 100644'']
                     else if newPath = ''/dev/null'' then [''deleted file mode 100644'']
                     else [])
              in joinWith newline (header @ lines))
         | _ \<Rightarrow> patch))"

definition ensureTrailingNewline :: "string \<Rightarrow> string" where
  "ensureTrailingNewline patch =
     (if patch = [] then patch
      else if suffix newline patch then patch else patch @ newline)"

text \<open>The normalisation applied to every response of the generation collaborator:
  header synthesis, then the trailing newline.\<close>

definition normalizePatchText :: "string \<Rightarrow> string" where
  "normalizePatchText patch = ensureTrailingNewline (ensureDiffGitHeader patch)"

definition isUnifiedDiff :: "string \<Rightarrow> bool" where
  "isUnifiedDiff s = (if s = [] then False else includesStr s ''diff --git '' \<or> includesStr s ''--- '')"

text \<open>A regular expression anchored with \<open>^\<close> under the \<open>m\<close> flag is tried at the start
  of the text and after every line terminator, leftmost first. The matcher \<open>m\<close> is given
  the text from such a position on and returns the captured group.\<close>

fun firstLineMatch :: "(string \<Rightarrow> 'a option) \<Rightarrow> bool \<Rightarrow> string \<Rightarrow> 'a option" where
  "firstLineMatch m atStart [] = (if atStart then m [] else None)"
| "firstLineMatch m atStart (c # cs) =
     (case (if atStart then m (c # cs) else None) of
        Some r \<Rightarrow> Some r
      | None \<Rightarrow> firstLineMatch m (isLineTerminator c) cs)"

definition restOfLine :: "string \<Rightarrow> string" where
  "restOfLine s = takeWhile (\<lambda>c. \<not> isLineTerminator c) s"

text \<open>\<open>/^\<bsol>+\<bsol>+\<bsol>+\<bsol>s+b\<bsol>/(.+)$/m\<close> at a line start. \<open>\<bsol>s+\<close> has to take the whole run of
  white space (line terminators included), since \<open>b\<close> must follow; \<open>(.+)\<close> is the rest
  of the line, not empty.\<close>

definition plusAt :: "string \<Rightarrow> string option" where
  "plusAt s =
     (if prefix ''+++'' s then
        (let r = drop 3 s; r2 = dropWhile isSpace r in
         if takeWhile isSpace r \<noteq> [] \<and> prefix ''b/'' r2 \<and> restOfLine (drop 2 r2) \<noteq> []
         then Some (restOfLine (drop 2 r2)) else None)
      else None)"

text \<open>\<open>/^diff --git a\<bsol>/(.+)\<bsol>s+b\<bsol>/(.+)$/m\<close> at a line start, returning the second
  group. The first group is greedy: of the ways to cut the line after \<open>a/\<close> so that white
  space, \<open>b/\<close> and a non-empty rest of line follow, the longest first group wins.\<close>

definition diffGitCut :: "string \<Rightarrow> nat \<Rightarrow> bool" where
  "diffGitCut r k =
     (let rk = drop k r; r2 = dropWhile isSpace rk in
      takeWhile isSpace rk \<noteq> [] \<and> prefix ''b/'' r2 \<and> restOfLine (drop 2 r2) \<noteq> [])"

definition diffGitAt :: "string \<Rightarrow> string option" where
  "diffGitAt s =
     (if prefix ''diff --git a/'' s then
        (let r = drop 13 s in
         case find (diffGitCut r) (rev [1 ..< length (restOfLine r) + 1]) of
           Some k \<Rightarrow> Some (restOfLine (drop 2 (dropWhile isSpace (drop k r))))
         | None \<Rightarrow> None)
      else None)"

text \<open>\<open>g.trim() || null\<close>.\<close>

definition trimOrNull :: "string \<Rightarrow> string option" where
  "trimOrNull g = (if trim g = [] then None else Some (trim g))"

definition extractPrimaryFilePath :: "string \<Rightarrow> string option" where
  "extractPrimaryFilePath patch =
     (case firstLineMatch plusAt True patch of
        Some g \<Rightarrow> trimOrNull g
      | None \<Rightarrow>
          (case firstLineMatch diffGitAt True patch of
             Some g \<Rightarrow> trimOrNull g
           | None \<Rightarrow> None))"

text \<open>A regular expression without anchor, tested at every position.\<close>

fun existsAt :: "(string \<Rightarrow> bool) \<Rightarrow> string \<Rightarrow> bool" where
  "existsAt p [] = p []"
| "existsAt p (c # cs) = (p (c # cs) \<or> existsAt p cs)"

text \<open>\<open>/@@\<bsol>s+-0,0\<bsol>s+\<bsol>+\<bsol>d/\<close> at a position.\<close>

definition hunkZeroAt :: "string \<Rightarrow> bool" where
  "hunkZeroAt s =
     (prefix ''@@'' s \<and>
      (let r = drop 2 s; r2 = dropWhile isSpace r in
       takeWhile isSpace r \<noteq> [] \<and> prefix ''-0,0'' r2 \<and>
       (let r3 = drop 4 r2; r4 = dropWhile isSpace r3 in
        takeWhile isSpace r3 \<noteq> [] \<and>
        (case r4 of p # d # _ \<Rightarrow> p = CHR ''+'' \<and> isDigit d | _ \<Rightarrow> False))))"

definition isNewFilePatch :: "string \<Rightarrow> bool" where
  "isNewFilePatch patch = (includesStr patch ''--- /dev/null'' \<or> existsAt hunkZeroAt patch)"

text \<open>The loop of \<open>extractNewFileContentFromPatch\<close> over the lines, with its flag.\<close>

fun addedLines :: "bool \<Rightarrow> string list \<Rightarrow> string list" where
  "addedLines inHunk [] = []"
| "addedLines inHunk (line # rest) =
     (if prefix ''@@'' line then addedLines True rest
      else if \<not> inHunk then addedLines inHunk rest
      else if prefix ''+++'' line then addedLines inHunk rest
      else if prefix ''+'' line then drop 1 line # addedLines inHunk rest
      else addedLines inHunk rest)"

definition extractNewFileContentFromPatch :: "string \<Rightarrow> string option" where
  "extractNewFileContentFromPatch patch =
     (if \<not> isNewFilePatch patch then None
      else
        (let content = addedLines False (splitLines patch) in
         if content = [] then None else Some (joinWith newline content)))"

text \<open>\<open>extractFilePathFromPrompt\<close>. At a position the character class takes the longest
  run it can and gives characters back one at a time until a dot and an extension
  follow; the alternatives of the extension are tried in the order written, and the
  first that fits ends the match.\<close>

definition isPathChar :: "char \<Rightarrow> bool" where
  "isPathChar c = (isLowerAZ c \<or> isUpperAZ c \<or> isDigit c \<or> c \<in> set ''_./-'')"

definition extensions :: "string list" where
  "extensions =
     [''js'', ''ts'', ''tsx'', ''jsx'', ''py'', ''java'', ''go'', ''rb'', ''rs'', ''cpp'', ''c'',
      ''h'', ''md'', ''json'', ''yaml'', ''yml'']"

definition extensionAt :: "string \<Rightarrow> string option" where
  "extensionAt s = find (\<lambda>e. prefix e s) extensions"

definition pathAt :: "string \<Rightarrow> string option" where
  "pathAt s =
     (case find (\<lambda>k. prefix ''.'' (drop k s) \<and> extensionAt (drop (k + 1) s) \<noteq> None)
             (rev [1 ..< length (takeWhile isPathChar s) + 1]) of
        Some k \<Rightarrow>
          (case extensionAt (drop (k + 1) s) of
             Some e \<Rightarrow> Some (take k s @ ''.'' @ e)
           | None \<Rightarrow> None)
      | None \<Rightarrow> None)"

fun firstMatch :: "(string \<Rightarrow> 'a option) \<Rightarrow> string \<Rightarrow> 'a option" where
  "firstMatch m [] = m []"
| "firstMatch m (c # cs) = (case m (c # cs) of Some r \<Rightarrow> Some r | None \<Rightarrow> firstMatch m cs)"

definition extractFilePathFromPrompt :: "string \<Rightarrow> string option" where
  "extractFilePathFromPrompt prompt = firstMatch pathAt prompt"

text \<open>\<open>stripCodeFences\<close>: every leftmost, shortest stretch from one fence to the next
  loses its fences (\<open>match.replace\<close> removes every fence inside the match).\<close>

definition fence :: string where
  "fence = [CHR 0x60, CHR 0x60, CHR 0x60]"

fun dropFences :: "string \<Rightarrow> string" where
  "dropFences (a # b # c # rest) =
     (if [a, b, c] = fence then dropFences rest else a # dropFences (b # c # rest))"
| "dropFences s = s"

function stripCodeFences :: "string \<Rightarrow> string" where
  "stripCodeFences s =
     (if s = [] then []
      else if prefix fence s then
        (case indexOf (drop 3 s) fence of
           Some k \<Rightarrow> dropFences (take (k + 6) s) @ stripCodeFences (drop (k + 6) s)
         | None \<Rightarrow> hd s # stripCodeFences (tl s))
      else hd s # stripCodeFences (tl s))"
  by pat_completeness auto
termination
  by (relation "measure length") auto

declare stripCodeFences.simps [simp del]

text \<open>\<open>extractUnifiedDiff\<close>, applied by \<open>generatePatchWithClaude\<close> to the text the model
  returns. \<open>dashesAt\<close> is \<open>/^---\<bsol>s+/m\<close> at a line start.\<close>

definition dashesAt :: "string \<Rightarrow> bool" where
  "dashesAt s = (prefix ''---'' s \<and> takeWhile isSpace (drop 3 s) \<noteq> [])"

fun searchLine :: "(string \<Rightarrow> bool) \<Rightarrow> bool \<Rightarrow> string \<Rightarrow> nat option" where
  "searchLine p atStart [] = (if atStart \<and> p [] then Some 0 else None)"
| "searchLine p atStart (c # cs) =
     (if atStart \<and> p (c # cs) then Some 0
      else map_option Suc (searchLine p (isLineTerminator c) cs))"

definition extractUnifiedDiff :: "string \<Rightarrow> string" where
  "extractUnifiedDiff raw =
     (let cleaned = trim (stripCodeFences raw) in
      case indexOf cleaned ''diff --git '' of
        Some diffIndex \<Rightarrow> trim (drop diffIndex cleaned)
      | None \<Rightarrow>
          (case searchLine dashesAt True cleaned of
             Some altIndex \<Rightarrow> trim (drop altIndex cleaned)
           | None \<Rightarrow> trim cleaned))"

text \<open>Decimal notation of a number, for template strings.\<close>

function showNat :: "nat \<Rightarrow> string" where
  "showNat n =
     (if n < 10 then [char_of (48 + n)]
      else showNat (n div 10) @ [char_of (48 + n mod 10)])"
  by pat_completeness auto
termination
  by (relation "measure id") auto

declare showNat.simps [simp del]


text \<open>A diff for \<open>x.txt\<close> as the model may return it, without its \<open>diff --git\<close>
  line.\<close>

definition xDiff :: string where
  "xDiff = ''--- a/x.txt'' @ newline @ ''+++ b/x.txt'' @ newline @ ''@@ -1 +1 @@'' @ newline @
           ''-a'' @ newline @ ''+b'' @ newline"




section \<open>The working tree and the collaborators\<close>

text \<open>
  Failures are values. Every \<open>throw\<close> the pipeline can meet is one constructor: the two
  errors \<open>applyPatchFromClaude\<close> raises itself, the error \<open>runGit\<close> raises for a git
  command that exits with a failure, a rejected call of the generation collaborator, and
  the empty plan. \<open>errorMessage\<close> is the \<open>message\<close> of the JavaScript \<open>Error\<close>.
\<close>

datatype error =
    NotAPatch
  | InvalidPatch string string string
  | GitFailed "string list" string
  | ClaudeFailed string
  | PlanFailed

fun errorMessage :: "error \<Rightarrow> string" where
  "errorMessage NotAPatch = ''Model response was not a patch.''"
| "errorMessage (InvalidPatch patchPath details threeWayDetails) =
     ''The model returned an invalid patch. '' @
     ''We saved it to '' @ patchPath @ ''.'' @ newline @
     details @
     (if threeWayDetails \<noteq> [] then newline @ threeWayDetails else [])"
| "errorMessage (GitFailed args diagnostic) =
     ''Git command failed: git '' @ joinWith '' '' args @ newline @ diagnostic"
| "errorMessage (ClaudeFailed m) = m"
| "errorMessage PlanFailed = ''Failed to generate execution plan.''"

text \<open>
  The journal is the transcript of what the run did to the outside: every call of the
  generation collaborator and of git with its answer, and every write, directory
  creation and unlink.
\<close>

datatype event =
    ClaudePatchCall string string "string + string"
  | ClaudeFileCall string string string "string + string"
  | ClaudePlanCall string string nat jsnumber "string list" "string + (string \<times> string) list"
  | GitCall "string list" string "string + string"
  | WriteFile string string
  | Mkdir string
  | Unlink string

text \<open>
  The world is the file system (a file is present under a path when the map has it;
  directories are not modelled, and writes inside the repository succeed) and the
  journal.
\<close>

record world =
  files :: "string \<Rightarrow> string option"
  journal :: "event list"

text \<open>
  The collaborators are parameters. Each answers from the world it is called in, journal
  included, so two calls with the same arguments may answer differently.
  \<^item> \<open>claudeText prompt context\<close>: the text the model returns to
    \<open>generatePatchWithClaude\<close>, or the message of the rejection;
  \<^item> \<open>claudeFileText prompt context filePath\<close>: the same for
    \<open>generateFileContentWithClaude\<close>;
  \<^item> \<open>claudePlanItems prompt context maxSteps targetCount existingFiles\<close>: the
    \<open>title\<close> and \<open>instruction\<close> strings of the items of the JSON array the model returns
    to \<open>generatePlanWithClaude\<close> (none when the text does not parse);
  \<^item> \<open>gitExec args cwd\<close>: the diagnostic of a failing git command or the output of a
    successful one, and the files it leaves;
  \<^item> \<open>pathJoin\<close> and \<open>pathDirname\<close>: \<open>path.join\<close> and \<open>path.dirname\<close>.
\<close>

record env =
  claudeText :: "world \<Rightarrow> string \<Rightarrow> string \<Rightarrow> string + string"
  claudeFileText :: "world \<Rightarrow> string \<Rightarrow> string \<Rightarrow> string \<Rightarrow> string + string"
  claudePlanItems ::
    "world \<Rightarrow> string \<Rightarrow> string \<Rightarrow> nat \<Rightarrow> jsnumber \<Rightarrow> string list \<Rightarrow> string + (string \<times> string) list"
  gitExec :: "world \<Rightarrow> string list \<Rightarrow> string \<Rightarrow> (string + string) \<times> (string \<Rightarrow> string option)"
  pathJoin :: "string \<Rightarrow> string \<Rightarrow> string"
  pathDirname :: "string \<Rightarrow> string"

definition logEvent :: "event \<Rightarrow> world \<Rightarrow> world" where
  "logEvent e w = w\<lparr>journal := journal w @ [e]\<rparr>"

definition writeFile :: "string \<Rightarrow> string \<Rightarrow> world \<Rightarrow> world" where
  "writeFile p content w = logEvent (WriteFile p content) (w\<lparr>files := (files w)(p \<mapsto> content)\<rparr>)"

definition mkdirRecursive :: "string \<Rightarrow> world \<Rightarrow> world" where
  "mkdirRecursive p w = logEvent (Mkdir p) w"

definition safeUnlink :: "string \<Rightarrow> world \<Rightarrow> world" where
  "safeUnlink p w = logEvent (Unlink p) (w\<lparr>files := (files w)(p := None)\<rparr>)"

definition runGit :: "env \<Rightarrow> string list \<Rightarrow> string \<Rightarrow> world \<Rightarrow> (error + string) \<times> world" where
  "runGit E args cwd w =
     (case gitExec E w args cwd of
        (r, fs) \<Rightarrow>
          (let w' = logEvent (GitCall args cwd r) (w\<lparr>files := fs\<rparr>) in
           case r of
             Inl diagnostic \<Rightarrow> (Inl (GitFailed args diagnostic), w')
           | Inr out \<Rightarrow> (Inr (trim out), w')))"

definition validatePatch :: "env \<Rightarrow> string \<Rightarrow> string \<Rightarrow> world \<Rightarrow> (error + string) \<times> world" where
  "validatePatch E repoRoot patchPath w = runGit E [''apply'', ''--check'', patchPath] repoRoot w"

definition applyPatch :: "env \<Rightarrow> string \<Rightarrow> string \<Rightarrow> world \<Rightarrow> (error + string) \<times> world" where
  "applyPatch E repoRoot patchPath w =
     runGit E [''apply'', ''--whitespace=fix'', patchPath] repoRoot w"

definition applyPatchThreeWay :: "env \<Rightarrow> string \<Rightarrow> string \<Rightarrow> world \<Rightarrow> (error + string) \<times> world" where
  "applyPatchThreeWay E repoRoot patchPath w =
     runGit E [''apply'', ''--3way'', ''--whitespace=fix'', patchPath] repoRoot w"

definition generatePatchWithClaude ::
  "env \<Rightarrow> string \<Rightarrow> string \<Rightarrow> world \<Rightarrow> (error + string) \<times> world" where
  "generatePatchWithClaude E prompt contextText w =
     (let r = claudeText E w prompt contextText;
          w' = logEvent (ClaudePatchCall prompt contextText r) w
      in case r of
           Inl m \<Rightarrow> (Inl (ClaudeFailed m), w')
         | Inr raw \<Rightarrow> (Inr (extractUnifiedDiff raw), w'))"

definition generateFileContentWithClaude ::
  "env \<Rightarrow> string \<Rightarrow> string \<Rightarrow> string \<Rightarrow> world \<Rightarrow> (error + string) \<times> world" where
  "generateFileContentWithClaude E prompt contextText filePath w =
     (let r = claudeFileText E w prompt contextText filePath;
          w' = logEvent (ClaudeFileCall prompt contextText filePath r) w
      in case r of
           Inl m \<Rightarrow> (Inl (ClaudeFailed m), w')
         | Inr raw \<Rightarrow> (Inr (trim raw), w'))"

record ClaudePlanStep =
  stepTitle :: string
  stepInstruction :: string

definition generatePlanWithClaude ::
  "env \<Rightarrow> string \<Rightarrow> string \<Rightarrow> nat \<Rightarrow> jsnumber \<Rightarrow> string list \<Rightarrow> world
     \<Rightarrow> (error + ClaudePlanStep list) \<times> world" where
  "generatePlanWithClaude E prompt contextText maxSteps targetCount existingFiles w =
     (let r = claudePlanItems E w prompt contextText maxSteps targetCount existingFiles;
          w' = logEvent (ClaudePlanCall prompt contextText maxSteps targetCount existingFiles r) w
      in case r of
           Inl m \<Rightarrow> (Inl (ClaudeFailed m), w')
         | Inr items \<Rightarrow>
             (let parsed =
                    filter (\<lambda>s. stepTitle s \<noteq> [] \<and> stepInstruction s \<noteq> [])
                      (map (\<lambda>(t, i). \<lparr>stepTitle = trim t, stepInstruction = trim i\<rparr>) items)
              in if parsed = [] then (Inl PlanFailed, w') else (Inr parsed, w')))"

section \<open>Patch application\<close>

definition isMissingFile :: "env \<Rightarrow> string \<Rightarrow> string \<Rightarrow> world \<Rightarrow> bool" where
  "isMissingFile E repoRoot filePath w = (files w (pathJoin E repoRoot filePath) = None)"

definition normalizePatchForNewFile :: "env \<Rightarrow> string \<Rightarrow> string \<Rightarrow> world \<Rightarrow> string" where
  "normalizePatchForNewFile E patch repoRoot w =
     (case extractPrimaryFilePath patch of
        None \<Rightarrow> patch
      | Some filePath \<Rightarrow>
          if files w (pathJoin E repoRoot filePath) \<noteq> None then patch
          else if includesStr patch ''/dev/null'' then patch
          else
            (let lines = splitLines patch;
                 mapped = map (\<lambda>line. if prefix ''--- a/'' line then ''--- /dev/null'' else line) lines;
                 rewritten =
                   (case mapped of
                      [] \<Rightarrow> []
                    | first # rest \<Rightarrow>
                        if prefix ''diff --git '' first
                        then first # ''new file mode 100644'' # rest
                        else first # rest)
             in ensureTrailingNewline (joinWith newline rewritten)))"

definition rewriteNewFilePatchForExistingFile ::
  "env \<Rightarrow> string \<Rightarrow> string \<Rightarrow> world \<Rightarrow> string option" where
  "rewriteNewFilePatchForExistingFile E patch repoRoot w =
     (if \<not> includesStr patch ''new file mode'' then None
      else
        (case firstLineMatch plusAt True patch of
           None \<Rightarrow> None
         | Some g \<Rightarrow>
             (let filePath = trim g in
              if filePath = [] then None
              else if files w (pathJoin E repoRoot filePath) = None then None
              else
                (let lines = splitLines patch;
                     rewritten =
                       map (\<lambda>line. if prefix ''--- /dev/null'' line then ''--- a/'' @ filePath else line)
                         (filter (\<lambda>line. line \<noteq> ''new file mode 100644'') lines)
                 in Some (ensureTrailingNewline (joinWith newline rewritten))))))"

text \<open>\<open>extractPrimaryFilePath(originalPatch) ?? extractFilePathFromPrompt(prompt)\<close>.\<close>

definition targetFilePath :: "string \<Rightarrow> string \<Rightarrow> string option" where
  "targetFilePath originalPatch prompt =
     (case extractPrimaryFilePath originalPatch of
        Some p \<Rightarrow> Some p
      | None \<Rightarrow> extractFilePathFromPrompt prompt)"

definition writeFileFromNonPatchResponse ::
  "env \<Rightarrow> string \<Rightarrow> string \<Rightarrow> string \<Rightarrow> world \<Rightarrow> bool \<times> world" where
  "writeFileFromNonPatchResponse E prompt repoRoot content0 w =
     (let content = trim (stripCodeFences content0) in
      if content = [] then (False, w)
      else
        (case extractFilePathFromPrompt prompt of
           None \<Rightarrow> (False, w)
         | Some target \<Rightarrow>
             (let fullPath = pathJoin E repoRoot target in
              (True, writeFile fullPath (content @ newline)
                       (mkdirRecursive (pathDirname E fullPath) w)))))"

definition regeneratePatchWithFreshFileContext ::
  "env \<Rightarrow> string \<Rightarrow> string \<Rightarrow> string \<Rightarrow> world \<Rightarrow> (error + string option) \<times> world" where
  "regeneratePatchWithFreshFileContext E prompt repoRoot originalPatch w =
     (case targetFilePath originalPatch prompt of
        None \<Rightarrow> (Inr None, w)
      | Some filePath \<Rightarrow>
          (case files w (pathJoin E repoRoot filePath) of
             None \<Rightarrow> (Inr None, w)
           | Some fileContent \<Rightarrow>
               (let focusedContext =
                      ''File: '' @ filePath @ newline @
                      ''Current contents:'' @ newline @
                      fileContent @
                      newline @ newline @ ''Only modify this file. Output a unified diff.''
                in case generatePatchWithClaude E prompt focusedContext w of
                     (Inl e, w1) \<Rightarrow> (Inl e, w1)
                   | (Inr retryPatch, w1) \<Rightarrow>
                       (let normalized = ensureTrailingNewline (ensureDiffGitHeader retryPatch)
                        in (Inr (if trim normalized \<noteq> [] then Some normalized else None), w1)))))"

definition createFileFromClaudeIfMissing ::
  "env \<Rightarrow> string \<Rightarrow> string \<Rightarrow> string \<Rightarrow> string \<Rightarrow> world \<Rightarrow> (error + bool) \<times> world" where
  "createFileFromClaudeIfMissing E prompt contextText repoRoot originalPatch w =
     (case targetFilePath originalPatch prompt of
        None \<Rightarrow> (Inr False, w)
      | Some filePath \<Rightarrow>
          (let fullPath = pathJoin E repoRoot filePath in
           if files w fullPath \<noteq> None then (Inr False, w)
           else
             (case generateFileContentWithClaude E
                     (''Create the full contents for '' @ filePath @ ''.'') contextText filePath w of
                (Inl e, w1) \<Rightarrow> (Inl e, w1)
              | (Inr content, w1) \<Rightarrow>
                  if trim content = [] then (Inr False, w1)
                  else (Inr True, writeFile fullPath (content @ newline)
                                    (mkdirRecursive (pathDirname E fullPath) w1)))))"

definition replaceFileFromClaudeOnFailure ::
  "env \<Rightarrow> string \<Rightarrow> string \<Rightarrow> string \<Rightarrow> string \<Rightarrow> world \<Rightarrow> (error + bool) \<times> world" where
  "replaceFileFromClaudeOnFailure E prompt contextText repoRoot originalPatch w =
     (case targetFilePath originalPatch prompt of
        None \<Rightarrow> (Inr False, w)
      | Some filePath \<Rightarrow>
          (let fullPath = pathJoin E repoRoot filePath in
           case files w fullPath of
             None \<Rightarrow> (Inr False, w)
           | Some existing \<Rightarrow>
               (let focusedContext =
                      ''File: '' @ filePath @ newline @
                      ''Current contents:'' @ newline @
                      existing @
                      newline @ newline @ ''Return the full updated file contents.''
                in case generateFileContentWithClaude E prompt focusedContext filePath w of
                     (Inl e, w1) \<Rightarrow> (Inl e, w1)
                   | (Inr content, w1) \<Rightarrow>
                       if trim content = [] then (Inr False, w1)
                       else (Inr True, writeFile fullPath (content @ newline) w1))))"

text \<open>The parameters of \<open>applyPatchFromClaude\<close> the model needs (the API key, the model
  name and the output channel are only handed on).\<close>

record params =
  prmPrompt :: string
  prmContextText :: string
  prmRepoRoot :: string
  prmStepLabel :: string
  prmAllowEmpty :: bool

text \<open>Which \<open>return\<close> of \<open>applyPatchFromClaude\<close> ended a successful call.\<close>

datatype ApplyOutcome =
    NoChange
  | WroteResponse
  | NewFileWritten
  | MissingFileCreated
  | Applied
  | AppliedRewritten
  | AppliedViaThreeWay
  | AppliedRegenerated
  | FileReplaced

definition patchPathOf :: "env \<Rightarrow> params \<Rightarrow> string" where
  "patchPathOf E P = pathJoin E (prmRepoRoot P) (''.llm-pr-assistant.'' @ prmStepLabel P @ ''.patch'')"

text \<open>\<open>validatePatch; applyPatch; safeUnlink\<close>: the sequence the source runs on the
  original, the rewritten and the regenerated patch.\<close>

definition validateApplyUnlink :: "env \<Rightarrow> string \<Rightarrow> string \<Rightarrow> world \<Rightarrow> (error + unit) \<times> world" where
  "validateApplyUnlink E repoRoot patchPath w =
     (case validatePatch E repoRoot patchPath w of
        (Inl e, w1) \<Rightarrow> (Inl e, w1)
      | (Inr _, w1) \<Rightarrow>
          (case applyPatch E repoRoot patchPath w1 of
             (Inl e, w2) \<Rightarrow> (Inl e, w2)
           | (Inr _, w2) \<Rightarrow> (Inr (), safeUnlink patchPath w2)))"

text \<open>The body of \<open>catch (threeWayError)\<close>.\<close>

definition afterThreeWayFailure ::
  "env \<Rightarrow> params \<Rightarrow> string \<Rightarrow> string \<Rightarrow> error \<Rightarrow> world \<Rightarrow> (error + ApplyOutcome) \<times> world" where
  "afterThreeWayFailure E P normalizedPatch details threeWayError w =
     (let patchPath = patchPathOf E P in
      case regeneratePatchWithFreshFileContext E (prmPrompt P) (prmRepoRoot P) normalizedPatch w of
        (Inl e, w1) \<Rightarrow> (Inl e, w1)
      | (Inr refreshed, w1) \<Rightarrow>
          (case (case refreshed of
                   None \<Rightarrow> (False, w1)
                 | Some r \<Rightarrow>
                     if r = [] then (False, w1)
                     else
                       (case validateApplyUnlink E (prmRepoRoot P) patchPath (writeFile patchPath r w1) of
                          (Inr _, w2) \<Rightarrow> (True, w2)
                        | (Inl _, w2) \<Rightarrow> (False, w2))) of
             (True, w2) \<Rightarrow> (Inr AppliedRegenerated, w2)
           | (False, w2) \<Rightarrow>
               (case createFileFromClaudeIfMissing E (prmPrompt P) (prmContextText P) (prmRepoRoot P)
                       normalizedPatch w2 of
                  (Inl e, w3) \<Rightarrow> (Inl e, w3)
                | (Inr True, w3) \<Rightarrow> (Inr MissingFileCreated, safeUnlink patchPath w3)
                | (Inr False, w3) \<Rightarrow>
                    (case replaceFileFromClaudeOnFailure E (prmPrompt P) (prmContextText P)
                            (prmRepoRoot P) normalizedPatch w3 of
                       (Inl e, w4) \<Rightarrow> (Inl e, w4)
                     | (Inr True, w4) \<Rightarrow> (Inr FileReplaced, safeUnlink patchPath w4)
                     | (Inr False, w4) \<Rightarrow>
                         (Inl (InvalidPatch patchPath details (errorMessage threeWayError)), w4)))))"

text \<open>The body of \<open>catch (error)\<close>, entered when the direct validation or application
  failed. A failure of the rewritten patch is not caught.\<close>

definition afterDirectFailure ::
  "env \<Rightarrow> params \<Rightarrow> string \<Rightarrow> error \<Rightarrow> world \<Rightarrow> (error + ApplyOutcome) \<times> world" where
  "afterDirectFailure E P normalizedPatch err w =
     (let patchPath = patchPathOf E P;
          details = errorMessage err
      in case (case rewriteNewFilePatchForExistingFile E normalizedPatch (prmRepoRoot P) w of
                 None \<Rightarrow> None
               | Some rewritten \<Rightarrow> if rewritten = [] then None else Some rewritten) of
           Some rewritten \<Rightarrow>
             (case validateApplyUnlink E (prmRepoRoot P) patchPath (writeFile patchPath rewritten w) of
                (Inl e, w1) \<Rightarrow> (Inl e, w1)
              | (Inr _, w1) \<Rightarrow> (Inr AppliedRewritten, w1))
         | None \<Rightarrow>
             (case applyPatchThreeWay E (prmRepoRoot P) patchPath w of
                (Inr _, w1) \<Rightarrow> (Inr AppliedViaThreeWay, safeUnlink patchPath w1)
              | (Inl threeWayError, w1) \<Rightarrow>
                  afterThreeWayFailure E P normalizedPatch details threeWayError w1))"

text \<open>The outer \<open>try\<close> with its handler.\<close>

definition directPhase ::
  "env \<Rightarrow> params \<Rightarrow> string \<Rightarrow> world \<Rightarrow> (error + ApplyOutcome) \<times> world" where
  "directPhase E P normalizedPatch w =
     (case validateApplyUnlink E (prmRepoRoot P) (patchPathOf E P) w of
        (Inr _, w1) \<Rightarrow> (Inr Applied, w1)
      | (Inl err, w1) \<Rightarrow> afterDirectFailure E P normalizedPatch err w1)"

text \<open>\<open>applyPatchFromClaude\<close> from the point where the patch file has been written.\<close>

definition applyCascade ::
  "env \<Rightarrow> params \<Rightarrow> string \<Rightarrow> world \<Rightarrow> (error + ApplyOutcome) \<times> world" where
  "applyCascade E P normalizedPatch w =
     (let patchPath = patchPathOf E P in
      case extractPrimaryFilePath normalizedPatch of
        None \<Rightarrow> directPhase E P normalizedPatch w
      | Some primaryFile \<Rightarrow>
          if \<not> isMissingFile E (prmRepoRoot P) primaryFile w then directPhase E P normalizedPatch w
          else
            (case (case extractNewFileContentFromPatch normalizedPatch of
                     None \<Rightarrow> None
                   | Some c \<Rightarrow> if c = [] then None else Some c) of
               Some contentFromPatch \<Rightarrow>
                 (let target = pathJoin E (prmRepoRoot P) primaryFile in
                  (Inr NewFileWritten,
                   safeUnlink patchPath
                     (writeFile target (ensureTrailingNewline contentFromPatch)
                        (mkdirRecursive (pathDirname E target) w))))
             | None \<Rightarrow>
                 (case createFileFromClaudeIfMissing E (prmPrompt P) (prmContextText P) (prmRepoRoot P)
                         normalizedPatch w of
                    (Inl e, w1) \<Rightarrow> (Inl e, w1)
                  | (Inr True, w1) \<Rightarrow> (Inr MissingFileCreated, safeUnlink patchPath w1)
                  | (Inr False, w1) \<Rightarrow> directPhase E P normalizedPatch w1)))"

definition applyPatchFromClaude ::
  "env \<Rightarrow> params \<Rightarrow> world \<Rightarrow> (error + ApplyOutcome) \<times> world" where
  "applyPatchFromClaude E P w =
     (case generatePatchWithClaude E (prmPrompt P) (prmContextText P) w of
        (Inl e, w1) \<Rightarrow> (Inl e, w1)
      | (Inr patch, w1) \<Rightarrow>
          (let normalizedPatch =
                 normalizePatchForNewFile E (ensureTrailingNewline (ensureDiffGitHeader patch))
                   (prmRepoRoot P) w1
           in if trim normalizedPatch = [] then
                (if prmAllowEmpty P then (Inr NoChange, w1) else (Inl NotAPatch, w1))
              else if \<not> isUnifiedDiff normalizedPatch then
                (case writeFileFromNonPatchResponse E (prmPrompt P) (prmRepoRoot P) normalizedPatch w1 of
                   (True, w2) \<Rightarrow> (Inr WroteResponse, w2)
                 | (False, w2) \<Rightarrow> (Inl NotAPatch, w2))
              else
                applyCascade E P normalizedPatch
                  (writeFile (patchPathOf E P) normalizedPatch w1)))"

section \<open>Repository context\<close>

definition getFileList :: "env \<Rightarrow> string \<Rightarrow> world \<Rightarrow> string list \<times> world" where
  "getFileList E workspaceRoot w =
     (case runGit E [''ls-files''] workspaceRoot w of
        (Inr out, w1) \<Rightarrow> (take 200 (filter (\<lambda>l. l \<noteq> []) (splitOn CHR 0x0A out)), w1)
      | (Inl _, w1) \<Rightarrow> ([], w1))"

definition readTextFile :: "env \<Rightarrow> string \<Rightarrow> string \<Rightarrow> nat \<Rightarrow> world \<Rightarrow> string option" where
  "readTextFile E workspaceRoot relativePath maxLength w =
     (case files w (pathJoin E workspaceRoot relativePath) of
        None \<Rightarrow> None
      | Some content \<Rightarrow>
          if length content \<le> maxLength then Some content
          else Some (take maxLength content @ newline @ ''...truncated...''))"

definition buildContext :: "env \<Rightarrow> string \<Rightarrow> world \<Rightarrow> string \<times> world" where
  "buildContext E workspaceRoot w =
     (case getFileList E workspaceRoot w of
        (fileList, w1) \<Rightarrow>
          (let listing = joinWith newline fileList;
               sections1 = [''Tracked files (first 200):'',
                            if listing = [] then ''(no files)'' else listing];
               sections2 =
                 (case readTextFile E workspaceRoot ''README.md'' 4000 w1 of
                    None \<Rightarrow> sections1
                  | Some readme \<Rightarrow>
                      if readme = [] then sections1
                      else sections1 @ [newline @ ''README.md:'', readme]);
               sections3 =
                 (case readTextFile E workspaceRoot ''package.json'' 4000 w1 of
                    None \<Rightarrow> sections2
                  | Some packageJson \<Rightarrow>
                      if packageJson = [] then sections2
                      else sections2 @ [newline @ ''package.json:'', packageJson])
           in (joinWith newline sections3, w1)))"

definition listRepoFiles :: "env \<Rightarrow> string \<Rightarrow> world \<Rightarrow> string list \<times> world" where
  "listRepoFiles E repoRoot w =
     (case runGit E [''ls-files''] repoRoot w of
        (Inr out, w1) \<Rightarrow> (filter (\<lambda>l. l \<noteq> []) (splitOn CHR 0x0A out), w1)
      | (Inl _, w1) \<Rightarrow> ([], w1))"

section \<open>Plan runner and single-shot/plan selector\<close>

definition buildStepPrompt :: "string \<Rightarrow> ClaudePlanStep \<Rightarrow> nat \<Rightarrow> nat \<Rightarrow> string" where
  "buildStepPrompt originalPrompt step index totalSteps =
     ''Original request:'' @ newline @ originalPrompt @ newline @ newline @
     ''Step '' @ showNat index @ '' of '' @ showNat totalSteps @ '': '' @ stepTitle step @ newline @
     ''Instruction:'' @ newline @ stepInstruction step @ newline @ newline @
     ''Only make changes required for this step. '' @
     ''Do not repeat previous steps.''"

text \<open>The parameters \<open>runPlanExecute\<close> passes for the step at index \<open>i\<close> (from 0).\<close>

definition stepParams :: "string \<Rightarrow> string \<Rightarrow> ClaudePlanStep list \<Rightarrow> nat \<Rightarrow> string \<Rightarrow> params" where
  "stepParams prompt repoRoot plan i contextText =
     \<lparr>prmPrompt = buildStepPrompt prompt (plan ! i) (i + 1) (length plan),
      prmContextText = contextText,
      prmRepoRoot = repoRoot,
      prmStepLabel = ''step-'' @ showNat (i + 1),
      prmAllowEmpty = True\<rparr>"

text \<open>The \<open>for\<close> loop of \<open>runPlanExecute\<close>, from index \<open>i\<close> on.\<close>

function planLoop ::
  "env \<Rightarrow> string \<Rightarrow> string \<Rightarrow> ClaudePlanStep list \<Rightarrow> nat \<Rightarrow> string \<Rightarrow> world \<Rightarrow> (error + unit) \<times> world" where
  "planLoop E prompt repoRoot plan i contextText w =
     (if i < length plan then
        (case applyPatchFromClaude E (stepParams prompt repoRoot plan i contextText) w of
           (Inl e, w1) \<Rightarrow> (Inl e, w1)
         | (Inr _, w1) \<Rightarrow>
             (case buildContext E repoRoot w1 of
                (contextText', w2) \<Rightarrow> planLoop E prompt repoRoot plan (i + 1) contextText' w2))
      else (Inr (), w))"
  by pat_completeness auto
termination
  by (relation "measure (\<lambda>(E, prompt, repoRoot, plan, i, contextText, w). length plan - i)") auto

declare planLoop.simps [simp del]

definition runPlanExecute ::
  "env \<Rightarrow> string \<Rightarrow> string \<Rightarrow> string \<Rightarrow> nat \<Rightarrow> jsnumber \<Rightarrow> string list \<Rightarrow> world
     \<Rightarrow> (error + unit) \<times> world" where
  "runPlanExecute E prompt contextText repoRoot maxSteps targetCount existingFiles w =
     (case generatePlanWithClaude E prompt contextText maxSteps targetCount existingFiles w of
        (Inl e, w1) \<Rightarrow> (Inl e, w1)
      | (Inr plan, w1) \<Rightarrow>
          if plan = [] then (Inl PlanFailed, w1)
          else planLoop E prompt repoRoot plan 0 contextText w1)"

definition shouldFallbackToPlan :: "error \<Rightarrow> bool" where
  "shouldFallbackToPlan err =
     (let raw = errorMessage err in
      includesStr raw ''Model response was not a patch'' \<or>
      includesStr raw ''The model returned an invalid patch'')"

text \<open>The single-shot attempt of \<open>runGeneratePrompt\<close>.\<close>

definition singleShotParams :: "string \<Rightarrow> string \<Rightarrow> string \<Rightarrow> params" where
  "singleShotParams prompt contextText repoRoot =
     \<lparr>prmPrompt = prompt,
      prmContextText = contextText,
      prmRepoRoot = repoRoot,
      prmStepLabel = ''single-shot'',
      prmAllowEmpty = False\<rparr>"

text \<open>The part of \<open>runGeneratePrompt\<close> that generates and applies the changes: from
  \<open>buildContext\<close> to the end of the dispatch on the tier. What precedes it (set-up, the
  clean-tree check, the branch) and what follows it (commit, push, pull request) is not
  modelled.\<close>

definition generateChanges :: "env \<Rightarrow> string \<Rightarrow> string \<Rightarrow> world \<Rightarrow> (error + unit) \<times> world" where
  "generateChanges E prompt repoRoot w =
     (case buildContext E repoRoot w of
        (contextText, w1) \<Rightarrow>
          (let requestedCount = extractRequestedCount (toLowerCase prompt);
               executionTier = classifyTaskSizing prompt contextText
           in case listRepoFiles E repoRoot w1 of
                (trackedFiles, w2) \<Rightarrow>
                  if executionTier = TIER_1 then
                    (case applyPatchFromClaude E (singleShotParams prompt contextText repoRoot) w2 of
                       (Inr _, w3) \<Rightarrow> (Inr (), w3)
                     | (Inl err, w3) \<Rightarrow>
                         if \<not> shouldFallbackToPlan err then (Inl err, w3)
                         else runPlanExecute E prompt contextText repoRoot 4 requestedCount
                                trackedFiles w3)
                  else
                    runPlanExecute E prompt contextText repoRoot
                      (if executionTier = TIER_3 then 8 else 4) requestedCount trackedFiles w2))"
section \<open>Count extractor: verified properties\<close>

subsection \<open>The two-row programme computes the recurrence\<close>

lemma length_distanceRow [simp]: "length (distanceRow a b i) = Suc (length b)"
  by (simp add: distanceRow_def)

lemma nth_distanceRow: "j \<le> length b \<Longrightarrow> distanceRow a b i ! j = prefixDistance a b i j"
  unfolding distanceRow_def by (simp add: nth_map_upt del: upt_Suc)

lemma drop_distanceRow:
  "j \<le> length b \<Longrightarrow>
   drop j (distanceRow a b i) = prefixDistance a b i j # drop (Suc j) (distanceRow a b i)"
  using Cons_nth_drop_Suc [of j "distanceRow a b i"] by (simp add: nth_distanceRow)

lemma fillRow_distanceRow:
  assumes "j \<le> length b"
  shows "fillRow (a ! i) (drop j b) (drop j (distanceRow a b i)) (prefixDistance a b (Suc i) j)
         = map (prefixDistance a b (Suc i)) [Suc j ..< Suc (length b)]"
  using assms
proof (induction "length b - j" arbitrary: j)
  case 0
  then have "j = length b" by simp
  then show ?case by simp
next
  case (Suc k)
  then have lt: "j < length b" by simp
  define ps where "ps = drop (Suc (Suc j)) (distanceRow a b i)"
  define bs where "bs = drop (Suc j) b"
  have db: "drop j b = b ! j # bs"
    using lt by (simp add: Cons_nth_drop_Suc bs_def)
  have dr1: "drop (Suc j) (distanceRow a b i) = prefixDistance a b i (Suc j) # ps"
    using lt drop_distanceRow [of "Suc j" b a i] by (simp add: ps_def)
  have dr: "drop j (distanceRow a b i) = prefixDistance a b i j # prefixDistance a b i (Suc j) # ps"
    using lt drop_distanceRow [of j b a i] dr1 by simp
  have ih: "fillRow (a ! i) bs (prefixDistance a b i (Suc j) # ps)
              (prefixDistance a b (Suc i) (Suc j))
            = map (prefixDistance a b (Suc i)) [Suc (Suc j) ..< Suc (length b)]"
    using Suc.hyps(1) [of "Suc j"] Suc.hyps(2) lt by (simp add: bs_def dr1)
  have up: "[Suc j ..< Suc (length b)] = Suc j # [Suc (Suc j) ..< Suc (length b)]"
    using lt by (simp add: upt_conv_Cons del: upt_Suc)
  have step: "fillRow (a ! i) (b ! j # bs) (prefixDistance a b i j # prefixDistance a b i (Suc j) # ps)
                (prefixDistance a b (Suc i) j)
              = prefixDistance a b (Suc i) (Suc j)
                # fillRow (a ! i) bs (prefixDistance a b i (Suc j) # ps) (prefixDistance a b (Suc i) (Suc j))"
    by (simp add: Let_def)
  show ?case
    unfolding db dr up step ih by simp
qed

lemma nextRow_distanceRow:
  "Suc i # fillRow (a ! i) b (distanceRow a b i) (Suc i) = distanceRow a b (Suc i)"
proof -
  have "fillRow (a ! i) b (distanceRow a b i) (Suc i)
          = map (prefixDistance a b (Suc i)) [Suc 0 ..< Suc (length b)]"
    using fillRow_distanceRow [of 0 b a i] by simp
  moreover have "[0 ..< Suc (length b)] = 0 # [Suc 0 ..< Suc (length b)]"
    by (simp add: upt_conv_Cons del: upt_Suc)
  ultimately show ?thesis
    by (simp add: distanceRow_def del: upt_Suc)
qed

lemma levRows_distanceRow:
  assumes "i \<le> length a"
  shows "levRows (drop i a) b (distanceRow a b i) i = distanceRow a b (length a)"
  using assms
proof (induction "length a - i" arbitrary: i)
  case 0
  then show ?case by simp
next
  case (Suc k)
  then have lt: "i < length a" by simp
  have da: "drop i a = a ! i # drop (Suc i) a"
    using lt by (simp add: Cons_nth_drop_Suc)
  have "levRows (drop (Suc i) a) b (distanceRow a b (Suc i)) (Suc i) = distanceRow a b (length a)"
    using Suc.hyps(1) [of "Suc i"] Suc.hyps(2) lt by simp
  then show ?case
    unfolding da by (simp add: nextRow_distanceRow)
qed

lemma distanceRow_0: "distanceRow a b 0 = [0 ..< length b + 1]"
  unfolding distanceRow_def by (simp add: map_idI del: upt_Suc)

lemma prefixDistance_0_right: "prefixDistance a b i 0 = i"
  by (cases i) simp_all

lemma prefixDistance_same: "i \<le> length a \<Longrightarrow> prefixDistance a a i i = 0"
  by (induction i) simp_all

lemma levenshteinDistance_editDistance: "levenshteinDistance a b = editDistance a b"
proof -
  have "last (levRows a b [0 ..< length b + 1] 0) = prefixDistance a b (length a) (length b)"
  proof -
    have "levRows a b [0 ..< length b + 1] 0 = distanceRow a b (length a)"
      using levRows_distanceRow [of 0 a b] by (simp add: distanceRow_0)
    moreover have "last (distanceRow a b (length a)) = prefixDistance a b (length a) (length b)"
      unfolding distanceRow_def by (simp add: last_map del: upt_Suc)
    ultimately show ?thesis
      by simp
  qed
  then show ?thesis
    by (auto simp: levenshteinDistance_def editDistance_def prefixDistance_same
          prefixDistance_0_right)
qed

subsection \<open>The closest number word\<close>

lemma cardinalWords_numberWords: "cardinalWords = numberWords"
  by code_simp

lemma distinct_numberWords: "distinct (map fst numberWords)"
  by code_simp

lemma numberWords_values:
  "(w, n) \<in> set numberWords \<Longrightarrow> 0 < n \<and> (n \<ge> 20 \<and> n mod 10 = 0 \<longleftrightarrow> n \<in> {20, 30, 40, 50})"
  unfolding numberWords_def by auto

lemma cardinal_values:
  "cardinal w = Some n \<Longrightarrow> 0 < n \<and> (n \<ge> 20 \<and> n mod 10 = 0 \<longleftrightarrow> n \<in> {20, 30, 40, 50})"
  unfolding cardinal_def cardinalWords_numberWords
  by (rule numberWords_values [of w]) (erule map_of_SomeD)

lemma constructor_not_cardinal: "cardinal ''constructor'' = None"
  by code_simp

lemma empty_not_cardinal: "cardinal [] = None"
  by code_simp

lemma lookupWord_cardinal:
  "lookupWord k =
     (case cardinal k of
        Some n \<Rightarrow> Number n
      | None \<Rightarrow> if k = ''constructor'' then Inherited else Undefined)"
  by (simp add: lookupWord_def cardinal_def cardinalWords_numberWords)

text \<open>The loop of \<open>findClosestNumberWord\<close> keeps the first word at the smallest distance.\<close>

lemma closestLoop_Min:
  "closestLoop t ws best bd =
     (if ws \<noteq> [] \<and> Min (set (map (levenshteinDistance t) ws)) < bd
      then (the (find (\<lambda>w. levenshteinDistance t w = Min (set (map (levenshteinDistance t) ws))) ws),
            Min (set (map (levenshteinDistance t) ws)))
      else (best, bd))"
proof (induction ws arbitrary: best bd)
  case Nil
  show ?case by simp
next
  case (Cons w ws)
  let ?d = "levenshteinDistance t w"
  let ?M = "Min (set (map (levenshteinDistance t) ws))"
  show ?case
  proof (cases "ws = []")
    case True
    then show ?thesis by (simp add: Let_def)
  next
    case False
    then have M: "Min (set (map (levenshteinDistance t) (w # ws))) = min ?d ?M"
      by simp
    show ?thesis
    proof (cases "?d < bd")
      case True
      then have "closestLoop t (w # ws) best bd = closestLoop t ws w ?d"
        by (simp add: Let_def)
      also have "\<dots> = (if ?M < ?d
          then (the (find (\<lambda>w. levenshteinDistance t w = ?M) ws), ?M) else (w, ?d))"
        using False by (simp add: Cons.IH)
      finally show ?thesis
        unfolding M using True by (auto simp: min_def)
    next
      case nlt: False
      then have "closestLoop t (w # ws) best bd = closestLoop t ws best bd"
        by (simp add: Let_def)
      also have "\<dots> = (if ?M < bd
          then (the (find (\<lambda>w. levenshteinDistance t w = ?M) ws), ?M) else (best, bd))"
        using False by (simp add: Cons.IH)
      finally show ?thesis
        unfolding M using nlt by (auto simp: min_def)
    qed
  qed
qed

lemma find_map_fst:
  "find P (map fst xs) = map_option fst (find (\<lambda>(w, v). P w) xs)"
  by (induction xs) auto

lemma find_in_set: "find P xs = Some x \<Longrightarrow> x \<in> set xs"
  by (induction xs) (auto split: if_splits)

lemma find_Min_exists:
  assumes "xs \<noteq> []"
  shows "\<exists>x. find (\<lambda>x. f x = Min (set (map f xs))) xs = Some x"
proof -
  have "Min (set (map f xs)) \<in> set (map f xs)"
    using assms by (intro Min_in) simp_all
  then obtain x where "x \<in> set xs" "f x = Min (set (map f xs))"
    by auto
  then have "find (\<lambda>x. f x = Min (set (map f xs))) xs \<noteq> None"
    by (auto simp: find_None_iff)
  then show ?thesis by auto
qed

lemma numberWords_nonempty: "numberWords \<noteq> []"
  by (simp add: numberWords_def)

lemma map_distance_numberWords:
  "map (levenshteinDistance t) (map fst numberWords)
     = map (\<lambda>(w, v). editDistance t w) numberWords"
  by (simp add: levenshteinDistance_editDistance case_prod_beta)

lemma closest_lookup:
  "lookupWord (findClosestNumberWord t 2) =
     (case closestCardinal t of Some v \<Rightarrow> Number v | None \<Rightarrow> Undefined)"
proof -
  let ?f = "\<lambda>(w, v). editDistance t w"
  let ?M = "Min (set (map ?f numberWords))"
  have M: "Min (set (map (levenshteinDistance t) (map fst numberWords))) = ?M"
    unfolding map_distance_numberWords ..
  show ?thesis
  proof (cases "?M \<le> 2")
    case False
    then have "findClosestNumberWord t 2 = []"
      unfolding findClosestNumberWord_def closestLoop_Min M by simp
    moreover have "closestCardinal t = None"
      using False by (simp add: closestCardinal_def cardinalWords_numberWords)
    ultimately show ?thesis
      by (simp add: lookupWord_cardinal empty_not_cardinal)
  next
    case True
    obtain w v where found: "find (\<lambda>p. ?f p = ?M) numberWords = Some (w, v)"
      using find_Min_exists [OF numberWords_nonempty, of ?f] by force
    have same: "(\<lambda>(w, v). levenshteinDistance t w = ?M) = (\<lambda>p. ?f p = ?M)"
      by (auto simp: levenshteinDistance_editDistance)
    have "find (\<lambda>w. levenshteinDistance t w = ?M) (map fst numberWords) = Some w"
      unfolding find_map_fst same found by simp
    then have "findClosestNumberWord t 2 = w"
      unfolding findClosestNumberWord_def closestLoop_Min M
      using True numberWords_nonempty by simp
    moreover have "cardinal w = Some v"
      unfolding cardinal_def cardinalWords_numberWords
      using find_in_set [OF found] distinct_numberWords by (intro map_of_is_SomeI)
    moreover have "closestCardinal t = Some v"
    proof -
      have eq: "(\<lambda>(w, v). editDistance t w = ?M) = (\<lambda>p. ?f p = ?M)"
        by (simp add: fun_eq_iff)
      have "find (\<lambda>(w, v). editDistance t w = ?M) numberWords = Some (w, v)"
        unfolding eq by (rule found)
      then show ?thesis
        using True unfolding closestCardinal_def cardinalWords_numberWords Let_def by simp
    qed
    ultimately show ?thesis
      by (simp add: lookupWord_cardinal)
  qed
qed

lemma closestCardinal_values:
  assumes "closestCardinal t = Some n"
  shows "0 < n \<and> (n \<ge> 20 \<and> n mod 10 = 0 \<longleftrightarrow> n \<in> {20, 30, 40, 50})"
proof -
  from assms obtain p where "find (\<lambda>(w, v). editDistance t w =
        Min (set (map (\<lambda>(w, v). editDistance t w) numberWords))) numberWords = Some p"
    and "snd p = n"
    by (auto simp: closestCardinal_def cardinalWords_numberWords Let_def split: if_splits)
  then have "(fst p, n) \<in> set numberWords"
    using find_in_set [of _ numberWords p] by auto
  then show ?thesis
    by (rule numberWords_values)
qed

subsection \<open>The loop over the words\<close>

lemma splitOn_nonempty: "splitOn d s \<noteq> []"
  by (induction s) (auto split: list.splits)

lemma hd_splitOn: "hd (splitOn d s) = takeWhile (\<lambda>c. c \<noteq> d) s"
proof (induction s)
  case Nil
  show ?case by simp
next
  case (Cons c cs)
  then show ?case
    using splitOn_nonempty [of d cs] by (cases "splitOn d cs") auto
qed

lemma splitOn_two: "d \<in> set s \<Longrightarrow> \<exists>a b r. splitOn d s = a # b # r"
proof (induction s)
  case Nil
  then show ?case by simp
next
  case (Cons c cs)
  show ?case
  proof (cases "c = d")
    case True
    then show ?thesis
      using splitOn_nonempty [of d cs] by (cases "splitOn d cs") auto
  next
    case False
    then obtain a b r where "splitOn d cs = a # b # r"
      using Cons by auto
    then show ?thesis
      using False by simp
  qed
qed

lemma first_part_prefix:
  assumes "d \<in> set s"
  shows "prefix (hd (splitOn d s) @ [d]) s"
proof -
  have "dropWhile (\<lambda>c. c \<noteq> d) s \<noteq> []"
    using assms by (simp add: dropWhile_eq_Nil_conv)
  then obtain r where r: "dropWhile (\<lambda>c. c \<noteq> d) s = d # r"
    using hd_dropWhile [of "\<lambda>c. c \<noteq> d" s] by (cases "dropWhile (\<lambda>c. c \<noteq> d) s") auto
  have "s = takeWhile (\<lambda>c. c \<noteq> d) s @ dropWhile (\<lambda>c. c \<noteq> d) s"
    by simp
  then have "s = (hd (splitOn d s) @ [d]) @ r"
    unfolding r hd_splitOn by simp
  then show ?thesis
    by (metis prefixI)
qed

lemma first_part_not_constructor:
  assumes "\<not> prefix ''constructor-'' w" "CHR ''-'' \<in> set w"
  shows "hd (splitOn CHR ''-'' w) \<noteq> ''constructor''"
proof
  assume "hd (splitOn CHR ''-'' w) = ''constructor''"
  then have "prefix (''constructor'' @ ''-'') w"
    using first_part_prefix [OF assms(2)] by simp
  then show False
    using assms(1) by simp
qed

lemma hyphenated_compound:
  assumes "\<not> prefix ''constructor-'' token"
  shows "hyphenated (Num m) token = map_option (\<lambda>v. Num (max m v)) (compoundValue token)"
proof (cases "CHR ''-'' \<in> set token")
  case False
  then show ?thesis
    by (simp add: hyphenated_def compoundValue_def)
next
  case True
  then obtain a b r where parts: "splitOn CHR ''-'' token = a # b # r"
    using splitOn_two by blast
  have a: "a \<noteq> ''constructor''"
    using first_part_not_constructor [OF assms True] parts by simp
  show ?thesis
  proof (cases "cardinal b")
    case None
    then show ?thesis
      using True parts
      by (simp add: hyphenated_def compoundValue_def unitsValue_def lookupWord_cardinal Let_def
            split: option.splits)
  next
    case (Some n)
    note b = this
    have n: "0 < n" using cardinal_values [OF Some] by simp
    show ?thesis
    proof (cases "cardinal a")
      case None
      then show ?thesis
        using True parts a b n
        by (simp add: hyphenated_def compoundValue_def unitsValue_def lookupWord_cardinal Let_def)
    next
      case (Some x)
      then have "0 < x" using cardinal_values by simp
      then show ?thesis
        using True parts b n Some
        by (simp add: hyphenated_def compoundValue_def unitsValue_def lookupWord_cardinal Let_def)
    qed
  qed
qed

lemma plainToken_wordValue:
  assumes "token \<noteq> ''constructor''" "compoundValue token = None"
  shows "plainToken (Num m) token rest = Num (max m (wordValue token rest))"
proof -
  let ?v = "case cardinal token of Some v \<Rightarrow> Some v | None \<Rightarrow> closestCardinal token"
  note tok = assms(1)
  have v: "(case lookupWord token of
              Undefined \<Rightarrow> lookupWord (findClosestNumberWord token 2)
            | found \<Rightarrow> found)
           = (case ?v of None \<Rightarrow> Undefined | Some n \<Rightarrow> Number n)"
  proof -
    have "lookupWord token = (case cardinal token of Some n \<Rightarrow> Number n | None \<Rightarrow> Undefined)"
      using tok by (simp add: lookupWord_cardinal)
    then show ?thesis
      by (cases "cardinal token") (simp_all add: closest_lookup)
  qed
  show ?thesis
  proof (cases ?v)
    case None
    then show ?thesis
      using assms(2) v by (simp add: plainToken_def wordValue_def)
  next
    case (Some n)
    then have n: "0 < n \<and> (n \<ge> 20 \<and> n mod 10 = 0 \<longleftrightarrow> n \<in> {20, 30, 40, 50})"
      using cardinal_values [of token n] closestCardinal_values [of token n]
      by (auto split: option.splits)
    let ?u = "if n \<in> {20, 30, 40, 50}
              then (case rest of [] \<Rightarrow> None | w # _ \<Rightarrow> unitsValue w) else None"
    have total: "(if n \<ge> 20 \<and> n mod 10 = 0 \<and> rest \<noteq> [] then
              (case lookupWord (hd rest) of
                 Number k \<Rightarrow> if 0 < k \<and> k < 10 then n + k else n
               | _ \<Rightarrow> n)
            else n) = (case ?u of Some u \<Rightarrow> n + u | None \<Rightarrow> n)"
    proof (cases rest)
      case Nil
      then show ?thesis by simp
    next
      case (Cons w ws)
      show ?thesis
      proof (cases "cardinal w")
        case None
        then show ?thesis
          using Cons n by (simp add: lookupWord_cardinal unitsValue_def)
      next
        case (Some k)
        then have "0 < k" using cardinal_values by simp
        then show ?thesis
          using Cons n Some by (simp add: lookupWord_cardinal unitsValue_def)
      qed
    qed
    have "plainToken (Num m) token rest = Num (max m (case ?u of Some u \<Rightarrow> n + u | None \<Rightarrow> n))"
      unfolding plainToken_def v Some Let_def using n total by simp
    moreover have "wordValue token rest = (case ?u of Some u \<Rightarrow> n + u | None \<Rightarrow> n)"
      unfolding wordValue_def assms(2) Some by simp
    ultimately show ?thesis by simp
  qed
qed

lemma compound_wordValue: "compoundValue token = Some v \<Longrightarrow> wordValue token rest = v"
  by (simp add: wordValue_def)

lemma wordLoop_wordValues:
  assumes "\<forall>w \<in> set ws. w \<noteq> ''constructor'' \<and> \<not> prefix ''constructor-'' w"
  shows "wordLoop (Num m) ws = Num (Max (set (m # wordValues ws)))"
  using assms
proof (induction ws arbitrary: m)
  case Nil
  show ?case by simp
next
  case (Cons token rest)
  then have tok: "token \<noteq> ''constructor''" and pre: "\<not> prefix ''constructor-'' token"
    and rest: "\<forall>w \<in> set rest. w \<noteq> ''constructor'' \<and> \<not> prefix ''constructor-'' w"
    by simp_all
  have step: "wordLoop (Num m) (token # rest) = wordLoop (Num (max m (wordValue token rest))) rest"
  proof (cases "compoundValue token")
    case None
    then show ?thesis
      using hyphenated_compound [OF pre, of m] plainToken_wordValue [OF tok None, of m rest]
      by simp
  next
    case (Some v)
    then show ?thesis
      using hyphenated_compound [OF pre, of m] compound_wordValue [OF Some, of rest]
      by simp
  qed
  have "Max (insert (max m (wordValue token rest)) (set (wordValues rest)))
          = Max (insert m (insert (wordValue token rest) (set (wordValues rest))))"
    by (cases "set (wordValues rest) = {}") (simp_all add: max.assoc)
  then show ?case
    unfolding step by (simp add: Cons.IH [OF rest])
qed

subsection \<open>Words and literal integers\<close>

lemma tokensAcc_map:
  assumes "\<And>c. \<not> sep (g c) \<Longrightarrow> g c = c"
  shows "tokensAcc sep cur (map g s) = tokensAcc (\<lambda>c. sep (g c)) cur s"
  by (induction s arbitrary: cur) (simp_all add: assms)

lemma lower_not_space: "isLowerAZ c \<Longrightarrow> \<not> isSpace c"
  by (auto simp: isLowerAZ_def isSpace_def)

lemma wordsOf_wordRuns: "wordsOf s = wordRuns s"
proof -
  let ?g = "\<lambda>c. if isLowerAZ c \<or> isSpace c \<or> c = CHR ''-'' then c else CHR '' ''"
  have keep: "\<not> isSpace (?g c) \<Longrightarrow> ?g c = c" for c
    by (auto simp: isSpace_def)
  have sep: "(\<lambda>c. isSpace (?g c)) = (\<lambda>c. \<not> (isLowerAZ c \<or> c = CHR ''-''))"
    using lower_not_space by (auto simp: fun_eq_iff isSpace_def)
  show ?thesis
    unfolding wordsOf_def wordRuns_def tokens_def
    using tokensAcc_map [of isSpace ?g "[]" s, OF keep] sep by simp
qed

lemma tokensAcc_run:
  "tokensAcc sep cur s =
     (if rev cur @ takeWhile (\<lambda>c. \<not> sep c) s = [] then []
      else [rev cur @ takeWhile (\<lambda>c. \<not> sep c) s])
     @ tokensAcc sep [] (dropWhile (\<lambda>c. \<not> sep c) s)"
proof (induction s arbitrary: cur)
  case Nil
  show ?case by simp
next
  case (Cons c cs)
  show ?case
  proof (cases "sep c")
    case True
    then show ?thesis by simp
  next
    case False
    then show ?thesis
      using Cons [of "c # cur"] by simp
  qed
qed

lemma tokens_word_run:
  assumes "isWordChar c"
  shows "tokens (\<lambda>c. \<not> isWordChar c) (c # cs)
           = (c # takeWhile isWordChar cs) # tokens (\<lambda>c. \<not> isWordChar c) (dropWhile isWordChar cs)"
  unfolding tokens_def using assms tokensAcc_run [of "\<lambda>c. \<not> isWordChar c" "[]" "c # cs"]
  by simp

lemma tokens_skip:
  assumes "\<not> isWordChar c"
  shows "tokens (\<lambda>c. \<not> isWordChar c) (c # cs) = tokens (\<lambda>c. \<not> isWordChar c) cs"
  unfolding tokens_def using assms by simp

lemma digit_is_word: "isDigit c \<Longrightarrow> isWordChar c"
  by (simp add: isWordChar_def)

lemma literalFrom_in_word: "literalFrom True s = literalFrom False (dropWhile isWordChar s)"
proof (induction s)
  case Nil
  show ?case by simp
next
  case (Cons c cs)
  show ?case
  proof (cases "isWordChar c")
    case True
    then show ?thesis using Cons by simp
  next
    case False
    then have "digitRunHere (c # cs) = None"
      using digit_is_word [of c] by (auto simp: digitRunHere_def)
    then show ?thesis
      using False by simp
  qed
qed

lemma takeWhile_digits_of_run:
  assumes "list_all isDigit (takeWhile isWordChar s)"
  shows "takeWhile isDigit s = takeWhile isWordChar s"
  using assms
proof (induction s)
  case Nil
  show ?case by simp
next
  case (Cons c cs)
  then show ?case
    using digit_is_word [of c] by (cases "isWordChar c") auto
qed

lemma takeWhile_digits_short:
  assumes "\<not> list_all isDigit (takeWhile isWordChar s)"
  shows "drop (length (takeWhile isDigit s)) s \<noteq> []
         \<and> isWordChar (hd (drop (length (takeWhile isDigit s)) s))"
  using assms
proof (induction s)
  case Nil
  then show ?case by simp
next
  case (Cons c cs)
  then show ?case
    by (cases "isWordChar c"; cases "isDigit c") auto
qed

lemma digitRunHere_word_run:
  assumes "isWordChar c"
  shows "digitRunHere (c # cs) =
     (if list_all isDigit (c # takeWhile isWordChar cs) \<and> length (c # takeWhile isWordChar cs) \<le> 3
      then Some (c # takeWhile isWordChar cs) else None)"
proof (cases "list_all isDigit (takeWhile isWordChar (c # cs))")
  case True
  have run: "takeWhile isDigit (c # cs) = takeWhile isWordChar (c # cs)"
    using takeWhile_digits_of_run [OF True] .
  have after: "drop (length (takeWhile isWordChar (c # cs))) (c # cs) = dropWhile isWordChar (c # cs)"
    by (rule dropWhile_eq_drop [symmetric])
  have "dropWhile isWordChar (c # cs) = [] \<or> \<not> isWordChar (hd (dropWhile isWordChar (c # cs)))"
    using hd_dropWhile [of isWordChar "c # cs"] by blast
  then show ?thesis
    unfolding digitRunHere_def run after Let_def using True assms by auto
next
  case False
  then have "drop (length (takeWhile isDigit (c # cs))) (c # cs) \<noteq> []
         \<and> isWordChar (hd (drop (length (takeWhile isDigit (c # cs))) (c # cs)))"
    by (rule takeWhile_digits_short)
  then have "digitRunHere (c # cs) = None"
    unfolding digitRunHere_def Let_def by simp
  then show ?thesis
    using False assms by auto
qed

lemma digitMatches_literalIntegers: "map numberOf (digitMatches s) = literalIntegers s"
proof -
  let ?P = "\<lambda>r. list_all isDigit r \<and> length r \<le> 3"
  let ?sep = "\<lambda>c. \<not> isWordChar c"
  have "literalFrom False s = map numberOf (filter ?P (tokens ?sep s))"
  proof (induction s rule: length_induct)
    case (1 s)
    show ?case
    proof (cases s)
      case Nil
      then show ?thesis by (simp add: tokens_def)
    next
      case (Cons c cs)
      show ?thesis
      proof (cases "isWordChar c")
        case False
        then have "digitRunHere (c # cs) = None"
          using digit_is_word [of c] by (auto simp: digitRunHere_def)
        then have "literalFrom False (c # cs) = literalFrom False cs"
          using False by simp
        also have "\<dots> = map numberOf (filter ?P (tokens ?sep cs))"
          using 1 Cons by simp
        finally show ?thesis
          unfolding Cons tokens_skip [OF False] .
      next
        case True
        let ?w = "c # takeWhile isWordChar cs"
        let ?rest = "dropWhile isWordChar cs"
        have "length ?rest < length s"
          using Cons length_dropWhile_le [of isWordChar cs] by simp
        then have ih: "literalFrom False ?rest = map numberOf (filter ?P (tokens ?sep ?rest))"
          using 1 by blast
        have "literalFrom False (c # cs)
                = (if ?P ?w then [numberOf ?w] else []) @ literalFrom True cs"
          using True by (simp add: digitRunHere_word_run [OF True])
        also have "\<dots> = (if ?P ?w then [numberOf ?w] else [])
                           @ map numberOf (filter ?P (tokens ?sep ?rest))"
          unfolding literalFrom_in_word ih ..
        also have "\<dots> = map numberOf (filter ?P (tokens ?sep (c # cs)))"
          unfolding tokens_word_run [OF True] by simp
        finally show ?thesis
          unfolding Cons .
      qed
    qed
  qed
  then show ?thesis
    by (simp add: digitMatches_def literalIntegers_def)
qed

lemma Max_start:
  fixes xs ys :: "nat list"
  shows "Max (set ((if xs = [] then 0 else Max (set xs)) # ys)) = Max (set (0 # xs @ ys))"
proof (cases "xs = []")
  case True
  then show ?thesis by simp
next
  case False
  then have ne: "set xs \<noteq> {}" by simp
  show ?thesis
  proof (cases "set ys = {}")
    case True
    then show ?thesis using False ne by (simp add: Max_insert)
  next
    case ys: False
    have "Max (insert 0 (set xs \<union> set ys)) = max 0 (Max (set xs \<union> set ys))"
      using ne by (subst Max_insert) simp_all
    also have "\<dots> = max (Max (set xs)) (Max (set ys))"
      using ne ys by (simp add: Max_Un)
    also have "\<dots> = Max (insert (Max (set xs)) (set ys))"
      using ys by (simp add: Max_insert)
    finally show ?thesis
      using False by simp
  qed
qed

lemma extractRequestedCount_countedValues:
  assumes "\<forall>w \<in> set (wordRuns s). w \<noteq> ''constructor'' \<and> \<not> prefix ''constructor-'' w"
  shows "extractRequestedCount s = Num (Max (set (0 # countedValues s)))"
proof -
  let ?ms = "map numberOf (digitMatches s)"
  have "extractRequestedCount s
          = wordLoop (Num (if ?ms = [] then 0 else Max (set ?ms))) (wordRuns s)"
    by (simp add: extractRequestedCount_def Let_def wordsOf_wordRuns)
  also have "\<dots> = Num (Max (set ((if ?ms = [] then 0 else Max (set ?ms)) # wordValues (wordRuns s))))"
    by (rule wordLoop_wordValues [OF assms])
  also have "\<dots> = Num (Max (set (0 # ?ms @ wordValues (wordRuns s))))"
    unfolding Max_start ..
  finally show ?thesis
    unfolding digitMatches_literalIntegers countedValues_def .
qed

subsection \<open>The examples\<close>

lemma count_update_12_endpoints: "extractRequestedCount ''update 12 endpoints'' = Num 12"
  by code_simp

lemma count_twenty_five_items: "extractRequestedCount ''twenty-five items'' = Num 25"
  by code_simp

lemma count_nothing_here: "extractRequestedCount ''nothing here'' = Num 0"
  by code_simp

lemma fourten_distance: "editDistance ''fourten'' ''fourteen'' = 1"
  by code_simp

lemma count_fourten: "extractRequestedCount ''fourten'' = Num 14"
  by code_simp

lemma fix_distance: "editDistance ''fix'' ''six'' = 1"
  by code_simp

lemma count_fix_the_three_files: "extractRequestedCount ''fix the three files'' = Num 6"
  by code_simp

lemma the_distance: "editDistance ''the'' ''ten'' = 2"
  by code_simp

lemma ten_cardinal: "cardinal ''ten'' = Some 10"
  by code_simp

lemma count_the: "extractRequestedCount ''the'' = Num 1"
  by code_simp

lemma thirty_nine_words:
  "\<forall>w \<in> set (wordRuns ''thirty nine of 12 twenty-five'').
     w \<noteq> ''constructor'' \<and> \<not> prefix ''constructor-'' w"
  by code_simp

lemma thirty_nine_values: "countedValues ''thirty nine of 12 twenty-five'' = [12, 39, 9, 1, 25]"
  by code_simp

text \<open>
  Claim C2, as the code has it. For every text none of whose words is \<open>constructor\<close> or
  begins with \<open>constructor-\<close>, the count extractor returns the maximum of 0 and of the
  values its strategies find: every run of one to three digits that no word character
  touches; and, for every word of the text (a maximal run of the letters a-z and the
  hyphen), the sum of its first two hyphen-separated parts when they are a number word
  and a number word below 10, otherwise the value of the word when it is a number word,
  otherwise the value of the closest number word when that is within edit distance 2
  (of several equally close number words the first in the order \<open>one\<close>, ..., \<open>twenty\<close>,
  \<open>thirty\<close>, \<open>forty\<close>, \<open>fifty\<close>), with the value of the next word added when the value is
  20, 30, 40 or 50 and the next word is a number word below 10. On the examples:
  \<open>update 12 endpoints\<close> gives 12, \<open>twenty-five items\<close> gives 25, \<open>nothing here\<close> gives 0,
  \<open>fourten\<close> is one edit from \<open>fourteen\<close> and gives 14, and \<open>fix the three files\<close> gives 6:
  \<open>fix\<close> is one edit from \<open>six\<close>.
\<close>

theorem extractRequestedCount_maximum_of_strategies:
  "((\<forall>w \<in> set (wordRuns s). w \<noteq> ''constructor'' \<and> \<not> prefix ''constructor-'' w)
      \<longrightarrow> extractRequestedCount s = Num (Max (set (0 # countedValues s))))
   \<and> extractRequestedCount ''update 12 endpoints'' = Num 12
   \<and> extractRequestedCount ''twenty-five items'' = Num 25
   \<and> extractRequestedCount ''nothing here'' = Num 0
   \<and> editDistance ''fourten'' ''fourteen'' = 1
   \<and> extractRequestedCount ''fourten'' = Num 14
   \<and> editDistance ''fix'' ''six'' = 1
   \<and> extractRequestedCount ''fix the three files'' = Num 6"
  using extractRequestedCount_countedValues [of s] count_update_12_endpoints
    count_twenty_five_items count_nothing_here fourten_distance count_fourten fix_distance
    count_fix_the_three_files
  by blast

theorem extractRequestedCount_maximum_of_strategies_witness:
  "countedValues ''thirty nine of 12 twenty-five'' = [12, 39, 9, 1, 25]
   \<and> extractRequestedCount ''thirty nine of 12 twenty-five'' = Num 39"
proof -
  have "extractRequestedCount ''thirty nine of 12 twenty-five''
          = Num (Max (set (0 # countedValues ''thirty nine of 12 twenty-five'')))"
    using extractRequestedCount_maximum_of_strategies [of "''thirty nine of 12 twenty-five''"]
      thirty_nine_words
    by blast
  then show ?thesis
    unfolding thirty_nine_values by simp
qed

text \<open>
  Claim C2 as stated gives 3 for \<open>fix the three files\<close>, and the maximum over the number
  words within edit distance 2. The code returns 6 for \<open>fix the three files\<close>; and for
  \<open>the\<close>, which is two edits from \<open>ten\<close>, it returns 1, the value of the first of the
  closest number words.
\<close>

theorem extractRequestedCount_counterexample:
  "extractRequestedCount ''fix the three files'' \<noteq> Num 3
   \<and> editDistance ''the'' ''ten'' = 2
   \<and> cardinal ''ten'' = Some 10
   \<and> extractRequestedCount ''the'' = Num 1"
  using count_fix_the_three_files the_distance ten_cardinal count_the by simp

section \<open>Task sizing classifier: verified properties\<close>

lemma countAward_atLeast:
  "countAward count =
     (if atLeast count 20 then 3 else if atLeast count 8 then 2 else if atLeast count 4 then 2 else 0)"
  by (cases count) (simp_all add: countAward_def)

text \<open>
  Claim C3. The classifier's score is the sum of the four awards of the specification
  (+2 for a prompt longer than 600, else +1 for longer than 300; +2 for a context larger
  than 200,000, else +1 for larger than 100,000; +3 for a count of at least 20, else +2
  for at least 8, else +2 for at least 4; +1 for a broad-scope keyword), and the tier is
  TIER_3 from 5, TIER_2 from 3, TIER_1 below.
\<close>

theorem classifyTaskSizing_score:
  "classifyTaskSizing prompt contextText = tierOfScore (specScore prompt contextText)
   \<and> specScore prompt contextText =
       (if length prompt > 600 then 2 else if length prompt > 300 then 1 else 0)
       + (if length contextText > 200000 then 2 else if length contextText > 100000 then 1 else 0)
       + (case extractRequestedCount (toLowerCase prompt) of
            NaN \<Rightarrow> 0
          | Num n \<Rightarrow> if n \<ge> 20 then 3 else if n \<ge> 8 then 2 else if n \<ge> 4 then 2 else 0)
       + (if list_ex (\<lambda>w. includesStr (toLowerCase prompt) w) scopeWords then 1 else 0)
   \<and> (classifyTaskSizing prompt contextText = TIER_3 \<longleftrightarrow> specScore prompt contextText \<ge> 5)
   \<and> (classifyTaskSizing prompt contextText = TIER_2 \<longleftrightarrow>
        specScore prompt contextText \<ge> 3 \<and> specScore prompt contextText < 5)
   \<and> (classifyTaskSizing prompt contextText = TIER_1 \<longleftrightarrow> specScore prompt contextText < 3)"
proof -
  have eq: "classifyTaskSizing prompt contextText = tierOfScore (specScore prompt contextText)"
    unfolding classifyTaskSizing_def specScore_def tierOfScore_def promptAward_def
      contextAward_def scopeAward_def hasScopeSignals_def countAward_atLeast Let_def
    by simp
  have sc: "specScore prompt contextText =
       (if length prompt > 600 then 2 else if length prompt > 300 then 1 else 0)
       + (if length contextText > 200000 then 2 else if length contextText > 100000 then 1 else 0)
       + (case extractRequestedCount (toLowerCase prompt) of
            NaN \<Rightarrow> 0
          | Num n \<Rightarrow> if n \<ge> 20 then 3 else if n \<ge> 8 then 2 else if n \<ge> 4 then 2 else 0)
       + (if list_ex (\<lambda>w. includesStr (toLowerCase prompt) w) scopeWords then 1 else 0)"
    unfolding specScore_def promptAward_def contextAward_def scopeAward_def countAward_def
    by simp
  have t3: "tierOfScore k = TIER_3 \<longleftrightarrow> k \<ge> 5" for k
    by (simp add: tierOfScore_def)
  have t2: "tierOfScore k = TIER_2 \<longleftrightarrow> k \<ge> 3 \<and> k < 5" for k
    by (auto simp: tierOfScore_def)
  have t1: "tierOfScore k = TIER_1 \<longleftrightarrow> k < 3" for k
    by (auto simp: tierOfScore_def)
  show ?thesis
    using sc by (simp only: eq t3 t2 t1)
qed

section \<open>Patch normalizer: verified properties\<close>








































lemma xDiff_normalized:
  "normalizePatchText xDiff = ''diff --git a/x.txt b/x.txt'' @ newline @ xDiff"
  by code_simp







end
